theory Spec2Isabelle
  imports Complex_Main "HOL-Library.Word"
begin

section \<open>Vectors, rectangles and the random source\<close>

text \<open>
  \<^verbatim>\<open>PoissonDiskDistribution.cpp\<close> works on \<^verbatim>\<open>glm::vec2\<close> (two floats) and
  \<^verbatim>\<open>glm::ivec2\<close> (two ints). Coordinates are modelled as real numbers, so the arithmetic
  of the model is exact (no rounding, no infinity, no NaN). The integer computations of
  \<^verbatim>\<open>Grid::add\<close> and \<^verbatim>\<open>Grid::resize\<close> are 32-bit, with the wrap-around of the hardware
  (C++ leaves the overflow of an \<^verbatim>\<open>int\<close> undefined); the integers of the rectangles and
  of the window of \<^verbatim>\<open>Grid::hasNeighbors\<close> are unbounded, which is exact for the bounds
  that \<open>representable\<close> below describes. The concrete runs use values that floats
  represent exactly, at every step. The properties proved for all inputs do not depend
  on the outcome of a comparison of \<^verbatim>\<open>Grid::hasNeighbors\<close>, but for one fact: no squared
  distance is less than 0.
\<close>

type_synonym vec2 = "real \<times> real"
type_synonym ivec2 = "int \<times> int"

definition vadd :: "vec2 \<Rightarrow> vec2 \<Rightarrow> vec2" where
  "vadd a b = (fst a + fst b, snd a + snd b)"

definition vsub :: "vec2 \<Rightarrow> vec2 \<Rightarrow> vec2" where
  "vsub a b = (fst a - fst b, snd a - snd b)"

definition vscale :: "vec2 \<Rightarrow> real \<Rightarrow> vec2" where
  "vscale a c = (fst a * c, snd a * c)"

definition length2 :: "vec2 \<Rightarrow> real" where
  "length2 a = fst a * fst a + snd a * snd a"

text \<open>
  The conversion of a float to an integer type discards the fractional part (rounds
  towards zero). \<^verbatim>\<open>(uint32_t) f\<close> is only defined by C++ when the truncated value is not
  negative; for the others the model takes the two's complement wrap-around.
\<close>

definition ftoi :: "real \<Rightarrow> int" where
  "ftoi r = (if 0 \<le> r then \<lfloor>r\<rfloor> else \<lceil>r\<rceil>)"

definition ftou32 :: "real \<Rightarrow> 32 word" where
  "ftou32 r = word_of_int (ftoi r)"

definition ivec2_of :: "vec2 \<Rightarrow> ivec2" where
  "ivec2_of p = (ftoi (fst p), ftoi (snd p))"

definition iadd :: "ivec2 \<Rightarrow> ivec2 \<Rightarrow> ivec2" where
  "iadd a b = (fst a + fst b, snd a + snd b)"

definition isub :: "ivec2 \<Rightarrow> ivec2 \<Rightarrow> ivec2" where
  "isub a b = (fst a - fst b, snd a - snd b)"

definition imin :: "ivec2 \<Rightarrow> ivec2 \<Rightarrow> ivec2" where
  "imin a b = (min (fst a) (fst b), min (snd a) (snd b))"

definition imax :: "ivec2 \<Rightarrow> ivec2 \<Rightarrow> ivec2" where
  "imax a b = (max (fst a) (fst b), max (snd a) (snd b))"

text \<open>
  Modelled from the spec: the rectangle collaborator (cinder's \<^verbatim>\<open>Rectf\<close> and \<^verbatim>\<open>Area\<close>),
  which the source includes and does not define. The spec asks of it a containment
  test, the centre, the size and the corners. \<^verbatim>\<open>Rectf\<close> has float corners and contains
  its border; \<^verbatim>\<open>Area\<close> has int corners, is built from a \<^verbatim>\<open>Rectf\<close> by converting each
  corner to int, and keeps its corners ordered.
\<close>

record Rectf =
  rx1 :: real
  ry1 :: real
  rx2 :: real
  ry2 :: real

record Area =
  ax1 :: int
  ay1 :: int
  ax2 :: int
  ay2 :: int

definition Rectf_contains :: "Rectf \<Rightarrow> vec2 \<Rightarrow> bool" where
  "Rectf_contains b p \<longleftrightarrow>
     rx1 b \<le> fst p \<and> fst p \<le> rx2 b \<and> ry1 b \<le> snd p \<and> snd p \<le> ry2 b"

definition Rectf_getCenter :: "Rectf \<Rightarrow> vec2" where
  "Rectf_getCenter b = ((rx1 b + rx2 b) / 2, (ry1 b + ry2 b) / 2)"

definition Area_set :: "int \<Rightarrow> int \<Rightarrow> int \<Rightarrow> int \<Rightarrow> Area" where
  "Area_set x1 y1 x2 y2 =
     \<lparr>ax1 = min x1 x2, ay1 = min y1 y2, ax2 = max x1 x2, ay2 = max y1 y2\<rparr>"

definition Area_of_Rectf :: "Rectf \<Rightarrow> Area" where
  "Area_of_Rectf b = Area_set (ftoi (rx1 b)) (ftoi (ry1 b)) (ftoi (rx2 b)) (ftoi (ry2 b))"

definition Area_getUL :: "Area \<Rightarrow> ivec2" where
  "Area_getUL a = (ax1 a, ay1 a)"

definition Area_getLR :: "Area \<Rightarrow> ivec2" where
  "Area_getLR a = (ax2 a, ay2 a)"

definition Area_getSize :: "Area \<Rightarrow> ivec2" where
  "Area_getSize a = (ax2 a - ax1 a, ay2 a - ay1 a)"

text \<open>
  The random source (cinder's \<^verbatim>\<open>randInt\<close> and \<^verbatim>\<open>randFloat\<close>) is a generator with a
  state of its own: each call returns a value and the next state. The program is
  modelled for any such generator.
\<close>

record 'r Rand =
  randInt :: "'r \<Rightarrow> int \<Rightarrow> int \<Rightarrow> int \<times> 'r"
  randFloat :: "'r \<Rightarrow> real \<times> 'r"

text \<open>The contract of \<^verbatim>\<open>randInt (lo, hi)\<close>: the value lies between the two bounds.\<close>

definition rand_ok :: "'r Rand \<Rightarrow> bool" where
  "rand_ok R \<longleftrightarrow>
     (\<forall>s lo hi. lo \<le> hi \<longrightarrow> lo \<le> fst (randInt R s lo hi) \<and> fst (randInt R s lo hi) \<le> hi)"

text \<open>
  A scripted generator for concrete runs: \<^verbatim>\<open>randFloat\<close> reads the next value of a list
  (and 0 when the list is used up), \<^verbatim>\<open>randInt\<close> returns its lower bound.
\<close>

definition scripted :: "(real list) Rand" where
  "scripted = \<lparr>randInt = (\<lambda>s lo hi. (lo, s)),
                randFloat = (\<lambda>s. case s of [] \<Rightarrow> (0, []) | u # us \<Rightarrow> (u, us))\<rparr>"




section \<open>The grid\<close>

text \<open>
  What a run can do other than return its output: \<^verbatim>\<open>std::vector::resize\<close> throws
  \<^verbatim>\<open>std::length_error\<close> in the constructor of the grid, or the processing list is read
  outside its range (which C++ leaves undefined, and a random source that honours its
  contract excludes).
\<close>

datatype error = IndexOutOfRange | LengthError

record Grid =
  mGrid :: "vec2 list list"
  mNumCells :: ivec2
  mOffset :: ivec2
  mBounds :: Area
  mK :: nat
  mCellSize :: nat

text \<open>
  \<^verbatim>\<open>Grid::resize\<close>: the cell size is \<open>2 ^ k\<close>, the offset the absolute value of the
  upper-left corner, the number of cells per axis the size divided by the cell size,
  rounded up; all cells are emptied. The number of cells \<^verbatim>\<open>mNumCells.x * mNumCells.y\<close> is
  a product of two \<^verbatim>\<open>int\<close>, which wraps around at 32 bits; converted to the unsigned size
  of the vector, a negative product is beyond \<^verbatim>\<open>max_size ()\<close>, and \<^verbatim>\<open>mGrid.resize\<close>
  throws \<^verbatim>\<open>std::length_error\<close>. (The exhaustion of the memory is not modelled.)
\<close>

definition resize :: "Grid \<Rightarrow> Area \<Rightarrow> nat \<Rightarrow> error + Grid" where
  "resize g bounds k =
     (let cs = 2 ^ k;
          sz = Area_getSize bounds;
          nc = (\<lceil>real_of_int (fst sz) / real cs\<rceil>, \<lceil>real_of_int (snd sz) / real cs\<rceil>);
          n = sint (word_of_int (fst nc) * word_of_int (snd nc) :: 32 word)
      in if n < 0 then Inl LengthError
         else Inr (g\<lparr>mBounds := bounds, mK := k, mCellSize := cs,
                     mOffset := (\<bar>fst (Area_getUL bounds)\<bar>, \<bar>snd (Area_getUL bounds)\<bar>),
                     mNumCells := nc,
                     mGrid := replicate (nat n) []\<rparr>))"

definition Grid_new :: "Area \<Rightarrow> nat \<Rightarrow> error + Grid" where
  "Grid_new bounds k =
     resize \<lparr>mGrid = [], mNumCells = (0, 0), mOffset = (0, 0),
             mBounds = \<lparr>ax1 = 0, ay1 = 0, ax2 = 0, ay2 = 0\<rparr>, mK = 0, mCellSize = 0\<rparr> bounds k"

text \<open>
  \<^verbatim>\<open>Grid::add\<close>. The cell coordinates are computed in \<^verbatim>\<open>uint32_t\<close> and read back as
  \<^verbatim>\<open>int\<close>; the flat index \<open>j = x + mNumCells.x * y\<close> is computed in \<^verbatim>\<open>int\<close>, which wraps
  around at 32 bits, and compared with the unsigned size of the grid, so a negative
  \<open>j\<close> is out of bounds as well. Out of bounds, the point is not stored (the source
  logs "Out of bounds").
\<close>

definition cell_index :: "Grid \<Rightarrow> vec2 \<Rightarrow> int" where
  "cell_index g position =
     (let x = sint (drop_bit (mK g) (ftou32 (fst position) + word_of_int (fst (mOffset g))));
          y = sint (drop_bit (mK g) (ftou32 (snd position) + word_of_int (snd (mOffset g))))
      in sint (word_of_int x + word_of_int (fst (mNumCells g)) * word_of_int y :: 32 word))"

definition add :: "Grid \<Rightarrow> vec2 \<Rightarrow> Grid" where
  "add g position =
     (let j = cell_index g position
      in if 0 \<le> j \<and> j < int (length (mGrid g))
         then g\<lparr>mGrid := (mGrid g)[nat j := mGrid g ! nat j @ [position]]\<rparr>
         else g)"

text \<open>
  \<^verbatim>\<open>Grid::hasNeighbors\<close>. The window of cells comes from the integer parts of \<open>p\<close> and of
  the radius, clamped to the bounds; every point of every cell of the window is
  compared with \<open>p\<close>, and the first one closer than the radius ends the search. The loop
  counters are unsigned; both ends of both ranges are non-negative for a grid that
  \<^verbatim>\<open>resize\<close> built (lemma \<open>window_nonneg\<close> below), and the cells read are allocated when
  the product of the numbers of cells did not wrap around (lemma \<open>scanned_inside\<close>).
  Otherwise the program reads outside the vector, and the model leaves the cell read
  unspecified.
\<close>

definition window :: "Grid \<Rightarrow> vec2 \<Rightarrow> real \<Rightarrow> ivec2 \<times> ivec2" where
  "window g p radius =
     (let radiusVec = (ftoi radius, ftoi radius);
          lr1 = isub (Area_getLR (mBounds g)) (1, 1);
          ul = Area_getUL (mBounds g);
          mn = imax (imin (isub (ivec2_of p) radiusVec) lr1) ul;
          mx = imax (imin (iadd (ivec2_of p) radiusVec) lr1) ul;
          minCell = ((fst mn + fst (mOffset g)) div 2 ^ mK g,
                     (snd mn + snd (mOffset g)) div 2 ^ mK g);
          maxCell = imin (1 + (fst mx + fst (mOffset g)) div 2 ^ mK g,
                          1 + (snd mx + snd (mOffset g)) div 2 ^ mK g) (mNumCells g)
      in (minCell, maxCell))"

definition hasNeighbors :: "Grid \<Rightarrow> vec2 \<Rightarrow> real \<Rightarrow> bool" where
  "hasNeighbors g p radius =
     (let sqRadius = radius * radius;
          (minCell, maxCell) = window g p radius
      in list_ex (\<lambda>y.
           list_ex (\<lambda>x.
             list_ex (\<lambda>cell. length2 (vsub p cell) < sqRadius)
               (mGrid g ! (x + nat (fst (mNumCells g)) * y)))
             [nat (fst minCell) ..< nat (fst maxCell)])
           [nat (snd minCell) ..< nat (snd maxCell)])"

section \<open>The three entry points\<close>

text \<open>
  A run returns its output list, or ends with an error, or never leaves the outer
  loop: the value of a run is \<open>Some (Inr output)\<close>, \<open>Some (Inl error)\<close> or \<open>None\<close>.
\<close>

type_synonym 'r work = "'r \<times> vec2 list \<times> vec2 list \<times> Grid"

text \<open>
  Each entry point starts in the same way: the grid is built (an exception of its
  constructor ends the run), the initial points go to the processing list, the output
  list and the grid; with no initial point, the centre of the bounds does.
\<close>

fun add_initial :: "vec2 list \<Rightarrow> vec2 list \<times> vec2 list \<times> Grid \<Rightarrow> vec2 list \<times> vec2 list \<times> Grid" where
  "add_initial [] st = st"
| "add_initial (p # ps) (processingList, outputList, grid) =
     add_initial ps (processingList @ [p], outputList @ [p], add grid p)"

definition seed :: "Rectf \<Rightarrow> vec2 list \<Rightarrow> error + vec2 list \<times> vec2 list \<times> Grid" where
  "seed bounds initialSet =
     (case Grid_new (Area_of_Rectf bounds) 3 of
        Inl e \<Rightarrow> Inl e
      | Inr grid0 \<Rightarrow>
          (case add_initial initialSet ([], [], grid0) of
             (processingList, outputList, grid) \<Rightarrow>
               if processingList = []
               then Inr (processingList @ [Rectf_getCenter bounds],
                         outputList @ [Rectf_getCenter bounds],
                         add grid (Rectf_getCenter bounds))
               else Inr (processingList, outputList, grid)))"

text \<open>\<^verbatim>\<open>processingList.erase (processingList.begin () + randPoint)\<close>\<close>

definition erase :: "'a list \<Rightarrow> nat \<Rightarrow> 'a list" where
  "erase xs i = take i xs @ drop (Suc i) xs"

subsection \<open>Constant separation\<close>

fun spawn_sep :: "'r Rand \<Rightarrow> real \<Rightarrow> Rectf \<Rightarrow> vec2 \<Rightarrow> nat \<Rightarrow> 'r work \<Rightarrow> 'r work" where
  "spawn_sep R separation bounds center 0 st = st"
| "spawn_sep R separation bounds center (Suc n) (r, processingList, outputList, grid) =
     (let (u1, r1) = randFloat R r;
          randRadius = separation * (1 + u1);
          (u2, r2) = randFloat R r1;
          randAngle = u2 * pi * 2;
          newPoint = vadd center (vscale (cos randAngle, sin randAngle) randRadius)
      in if Rectf_contains bounds newPoint \<and> \<not> hasNeighbors grid newPoint separation
         then spawn_sep R separation bounds center n
                (r2, processingList @ [newPoint], outputList @ [newPoint], add grid newPoint)
         else spawn_sep R separation bounds center n (r2, processingList, outputList, grid))"

partial_function (option) loop_sep ::
  "'r Rand \<Rightarrow> real \<Rightarrow> Rectf \<Rightarrow> int \<Rightarrow> 'r \<Rightarrow> vec2 list \<Rightarrow> vec2 list \<Rightarrow> Grid
     \<Rightarrow> (error + vec2 list) option" where
  "loop_sep R separation bounds k r processingList outputList grid =
     (if processingList = [] then Some (Inr outputList)
      else
        (case randInt R r 0 (int (length processingList) - 1) of (randPoint, r1) \<Rightarrow>
           if randPoint < 0 \<or> int (length processingList) \<le> randPoint
           then Some (Inl IndexOutOfRange)
           else
             let center = processingList ! nat randPoint
             in (case spawn_sep R separation bounds center (nat k)
                        (r1, erase processingList (nat randPoint), outputList, grid) of
                   (r2, processingList2, outputList2, grid2) \<Rightarrow>
                     loop_sep R separation bounds k r2 processingList2 outputList2 grid2)))"

definition poissonDiskDistribution_sep ::
  "'r Rand \<Rightarrow> 'r \<Rightarrow> real \<Rightarrow> Rectf \<Rightarrow> vec2 list \<Rightarrow> int \<Rightarrow> (error + vec2 list) option" where
  "poissonDiskDistribution_sep R r0 separation bounds initialSet k =
     (case seed bounds initialSet of
        Inl e \<Rightarrow> Some (Inl e)
      | Inr (processingList, outputList, grid) \<Rightarrow>
          loop_sep R separation bounds k r0 processingList outputList grid)"

subsection \<open>Separation function\<close>

fun spawn_fn :: "'r Rand \<Rightarrow> real \<Rightarrow> Rectf \<Rightarrow> vec2 \<Rightarrow> nat \<Rightarrow> 'r work \<Rightarrow> 'r work" where
  "spawn_fn R distance bounds center 0 st = st"
| "spawn_fn R distance bounds center (Suc n) (r, processingList, outputList, grid) =
     (let (u1, r1) = randFloat R r;
          randRadius = distance * (1 + u1);
          (u2, r2) = randFloat R r1;
          randAngle = u2 * pi * 2;
          newPoint = vadd center (vscale (cos randAngle, sin randAngle) randRadius)
      in if Rectf_contains bounds newPoint \<and> \<not> hasNeighbors grid newPoint distance
         then spawn_fn R distance bounds center n
                (r2, processingList @ [newPoint], outputList @ [newPoint], add grid newPoint)
         else spawn_fn R distance bounds center n (r2, processingList, outputList, grid))"

partial_function (option) loop_fn ::
  "'r Rand \<Rightarrow> (vec2 \<Rightarrow> real) \<Rightarrow> Rectf \<Rightarrow> int \<Rightarrow> 'r \<Rightarrow> vec2 list \<Rightarrow> vec2 list \<Rightarrow> Grid
     \<Rightarrow> (error + vec2 list) option" where
  "loop_fn R distFunction bounds k r processingList outputList grid =
     (if processingList = [] then Some (Inr outputList)
      else
        (case randInt R r 0 (int (length processingList) - 1) of (randPoint, r1) \<Rightarrow>
           if randPoint < 0 \<or> int (length processingList) \<le> randPoint
           then Some (Inl IndexOutOfRange)
           else
             let center = processingList ! nat randPoint;
                distance = distFunction center
             in (case spawn_fn R distance bounds center (nat k)
                        (r1, erase processingList (nat randPoint), outputList, grid) of
                   (r2, processingList2, outputList2, grid2) \<Rightarrow>
                     loop_fn R distFunction bounds k r2 processingList2 outputList2 grid2)))"

definition poissonDiskDistribution_fn ::
  "'r Rand \<Rightarrow> 'r \<Rightarrow> (vec2 \<Rightarrow> real) \<Rightarrow> Rectf \<Rightarrow> vec2 list \<Rightarrow> int \<Rightarrow> (error + vec2 list) option" where
  "poissonDiskDistribution_fn R r0 distFunction bounds initialSet k =
     (case seed bounds initialSet of
        Inl e \<Rightarrow> Some (Inl e)
      | Inr (processingList, outputList, grid) \<Rightarrow>
          loop_fn R distFunction bounds k r0 processingList outputList grid)"

subsection \<open>Separation function and admissibility predicate\<close>

fun spawn_pred ::
  "'r Rand \<Rightarrow> real \<Rightarrow> (vec2 \<Rightarrow> bool) \<Rightarrow> Rectf \<Rightarrow> vec2 \<Rightarrow> nat \<Rightarrow> 'r work \<Rightarrow> 'r work" where
  "spawn_pred R distance boundsFunction bounds center 0 st = st"
| "spawn_pred R distance boundsFunction bounds center (Suc n) (r, processingList, outputList, grid) =
     (let (u1, r1) = randFloat R r;
          randRadius = distance * (1 + u1);
          (u2, r2) = randFloat R r1;
          randAngle = u2 * pi * 2;
          newPoint = vadd center (vscale (cos randAngle, sin randAngle) randRadius)
      in if Rectf_contains bounds newPoint \<and> boundsFunction newPoint
            \<and> \<not> hasNeighbors grid newPoint distance
         then spawn_pred R distance boundsFunction bounds center n
                (r2, processingList @ [newPoint], outputList @ [newPoint], add grid newPoint)
         else spawn_pred R distance boundsFunction bounds center n
                (r2, processingList, outputList, grid))"

partial_function (option) loop_pred ::
  "'r Rand \<Rightarrow> (vec2 \<Rightarrow> real) \<Rightarrow> (vec2 \<Rightarrow> bool) \<Rightarrow> Rectf \<Rightarrow> int \<Rightarrow> 'r \<Rightarrow> vec2 list \<Rightarrow> vec2 list \<Rightarrow> Grid
     \<Rightarrow> (error + vec2 list) option" where
  "loop_pred R distFunction boundsFunction bounds k r processingList outputList grid =
     (if processingList = [] then Some (Inr outputList)
      else
        (case randInt R r 0 (int (length processingList) - 1) of (randPoint, r1) \<Rightarrow>
           if randPoint < 0 \<or> int (length processingList) \<le> randPoint
           then Some (Inl IndexOutOfRange)
           else
             let center = processingList ! nat randPoint;
                distance = distFunction center
             in (case spawn_pred R distance boundsFunction bounds center (nat k)
                        (r1, erase processingList (nat randPoint), outputList, grid) of
                   (r2, processingList2, outputList2, grid2) \<Rightarrow>
                     loop_pred R distFunction boundsFunction bounds k r2 processingList2 outputList2 grid2)))"

definition poissonDiskDistribution_pred ::
  "'r Rand \<Rightarrow> 'r \<Rightarrow> (vec2 \<Rightarrow> real) \<Rightarrow> (vec2 \<Rightarrow> bool) \<Rightarrow> Rectf \<Rightarrow> vec2 list \<Rightarrow> int
     \<Rightarrow> (error + vec2 list) option" where
  "poissonDiskDistribution_pred R r0 distFunction boundsFunction bounds initialSet k =
     (case seed bounds initialSet of
        Inl e \<Rightarrow> Some (Inl e)
      | Inr (processingList, outputList, grid) \<Rightarrow>
          loop_pred R distFunction boundsFunction bounds k r0 processingList outputList grid)"


section \<open>Notions used to state the properties\<close>

text \<open>The candidate that one round of the inner loop draws, and the generator after it.\<close>

definition candidate :: "'r Rand \<Rightarrow> 'r \<Rightarrow> vec2 \<Rightarrow> real \<Rightarrow> vec2 \<times> 'r" where
  "candidate R r center distance =
     (let (u1, r1) = randFloat R r;
          randRadius = distance * (1 + u1);
          (u2, r2) = randFloat R r1;
          randAngle = u2 * pi * 2
      in (vadd center (vscale (cos randAngle, sin randAngle) randRadius), r2))"

text \<open>
  A point is retained by \<^verbatim>\<open>Grid::add\<close> when its flat index lies inside the grid. The
  cells that \<^verbatim>\<open>Grid::hasNeighbors\<close> visits are listed by their flat indices.
\<close>

definition stored :: "Grid \<Rightarrow> vec2 \<Rightarrow> bool" where
  "stored g q \<longleftrightarrow> 0 \<le> cell_index g q \<and> cell_index g q < int (length (mGrid g))"

definition scanned :: "Grid \<Rightarrow> vec2 \<Rightarrow> real \<Rightarrow> nat list" where
  "scanned g p radius =
     (case window g p radius of (minCell, maxCell) \<Rightarrow>
        concat (map (\<lambda>y. map (\<lambda>x. x + nat (fst (mNumCells g)) * y)
                              [nat (fst minCell) ..< nat (fst maxCell)])
                    [nat (snd minCell) ..< nat (snd maxCell)]))"

text \<open>
  The cell of a point in the words of the specification: per axis the floor of
  (coordinate + offset) / cellSize, flattened as \<open>x + numCellsX * y\<close>.
\<close>

definition spec_cell_index :: "Grid \<Rightarrow> vec2 \<Rightarrow> int" where
  "spec_cell_index g p =
     \<lfloor>(fst p + real_of_int (fst (mOffset g))) / real (mCellSize g)\<rfloor>
     + fst (mNumCells g) * \<lfloor>(snd p + real_of_int (snd (mOffset g))) / real (mCellSize g)\<rfloor>"

text \<open>
  What \<^verbatim>\<open>Grid::add\<close> computes when its sums do not leave the range of \<^verbatim>\<open>int\<close>:
  \<open>add_exact\<close> says that, on each axis, the truncated coordinate plus the offset lies
  in \<open>[0, 2^31)\<close>; \<open>trunc_cell_index\<close> is \<open>x + numCellsX * y\<close> for the cell coordinates
  (trunc (coordinate) + offset) div cellSize, as an unbounded integer.
\<close>

definition add_exact :: "Grid \<Rightarrow> vec2 \<Rightarrow> bool" where
  "add_exact g p \<longleftrightarrow>
     0 \<le> ftoi (fst p) + fst (mOffset g) \<and> ftoi (fst p) + fst (mOffset g) < 2 ^ 31 \<and>
     0 \<le> ftoi (snd p) + snd (mOffset g) \<and> ftoi (snd p) + snd (mOffset g) < 2 ^ 31"

definition trunc_cell_index :: "Grid \<Rightarrow> vec2 \<Rightarrow> int" where
  "trunc_cell_index g p =
     (ftoi (fst p) + fst (mOffset g)) div 2 ^ mK g
     + fst (mNumCells g) * ((ftoi (snd p) + snd (mOffset g)) div 2 ^ mK g)"

text \<open>
  The bounds for which the integers of the model are those of the program: with the
  corners within \<open>2^23\<close> of the origin, the conversions of the corners to \<^verbatim>\<open>int\<close> are
  defined, the size fits an \<^verbatim>\<open>int\<close> and converts to \<^verbatim>\<open>float\<close> without rounding, and so do
  the numbers of cells. \<open>grid_fits\<close>: moreover the number of cells of the grid of a run
  (cells of size 8) fits an \<^verbatim>\<open>int\<close>, so that the constructor allocates that many cells.
\<close>

definition representable :: "Rectf \<Rightarrow> bool" where
  "representable b \<longleftrightarrow>
     \<bar>rx1 b\<bar> \<le> 2 ^ 23 \<and> \<bar>ry1 b\<bar> \<le> 2 ^ 23 \<and> \<bar>rx2 b\<bar> \<le> 2 ^ 23 \<and> \<bar>ry2 b\<bar> \<le> 2 ^ 23"

definition grid_fits :: "Rectf \<Rightarrow> bool" where
  "grid_fits b \<longleftrightarrow>
     representable b \<and>
     (let sz = Area_getSize (Area_of_Rectf b)
      in \<lceil>real_of_int (fst sz) / 8\<rceil> * \<lceil>real_of_int (snd sz) / 8\<rceil> < 2 ^ 31)"




section \<open>The three entry points run the same loop\<close>

lemma spawn_sep_eq_fn: "spawn_sep R d b c n (r, pl, out, g) = spawn_fn R d b c n (r, pl, out, g)"
  by (induction n arbitrary: r pl out g) (auto simp: Let_def split: prod.splits)

lemma spawn_fn_eq_pred:
  "spawn_fn R d b c n (r, pl, out, g) = spawn_pred R d (\<lambda>_. True) b c n (r, pl, out, g)"
  by (induction n arbitrary: r pl out g) (auto simp: Let_def split: prod.splits)

lemma loop_sep_imp_fn: 
  assumes "loop_sep R sep b k r pl out g = Some y"
  shows "loop_fn R (\<lambda>_. sep) b k r pl out g = Some y"
proof (rule loop_sep.raw_induct[where P = "\<lambda>R sep b k r pl out g y. loop_fn R (\<lambda>_. sep) b k r pl out g = Some y", OF _ assms], goal_cases)
  case (1 f R sep b k r pl out g y)
  show ?case
    apply (subst loop_fn.simps)
    using 1 
    apply (auto simp: spawn_sep_eq_fn Let_def split: prod.splits if_splits)
    done
qed

lemma loop_fn_imp_sep:
  assumes "loop_fn R (\<lambda>_. sep) b k r pl out g = Some y"
  shows "loop_sep R sep b k r pl out g = Some y"
proof -
  have "\<forall>sep'. (\<lambda>_. sep) = (\<lambda>_::vec2. sep') \<longrightarrow> loop_sep R sep' b k r pl out g = Some y"
  proof (rule loop_fn.raw_induct[where P = "\<lambda>R df b k r pl out g y. \<forall>sep. df = (\<lambda>_. sep) \<longrightarrow> loop_sep R sep b k r pl out g = Some y", OF _ assms], goal_cases)
    case (1 f R df b k r pl out g y)
    show ?case
      apply (intro allI impI)
      apply (subst loop_sep.simps)
      using 1 
      apply (auto simp: spawn_sep_eq_fn Let_def split: prod.splits if_splits)
      done
  qed
  then show ?thesis by simp
qed

lemma loop_sep_eq_fn: "loop_sep R sep b k r pl out g = loop_fn R (\<lambda>_. sep) b k r pl out g"
proof (cases "loop_sep R sep b k r pl out g")
  case None
  then show ?thesis
    using loop_fn_imp_sep[of R sep b k r pl out g]
    by (cases "loop_fn R (\<lambda>_. sep) b k r pl out g") auto
next
  case (Some y)
  then show ?thesis using loop_sep_imp_fn by fastforce
qed

lemma loop_fn_imp_pred: 
  assumes "loop_fn R df b k r pl out g = Some y"
  shows "loop_pred R df (\<lambda>_. True) b k r pl out g = Some y"
proof (rule loop_fn.raw_induct[where P = "\<lambda>R df b k r pl out g y. loop_pred R df (\<lambda>_. True) b k r pl out g = Some y", OF _ assms], goal_cases)
  case (1 f R df b k r pl out g y)
  show ?case
    apply (subst loop_pred.simps)
    using 1 
    apply (auto simp: spawn_fn_eq_pred Let_def split: prod.splits if_splits)
    done
qed

lemma loop_pred_imp_fn:
  assumes "loop_pred R df (\<lambda>_. True) b k r pl out g = Some y"
  shows "loop_fn R df b k r pl out g = Some y"
proof -
  have "(\<lambda>_::vec2. True) = (\<lambda>_. True) \<longrightarrow> loop_fn R df b k r pl out g = Some y"
  proof (rule loop_pred.raw_induct[where P = "\<lambda>R df bf b k r pl out g y. bf = (\<lambda>_. True) \<longrightarrow> loop_fn R df b k r pl out g = Some y", OF _ assms], goal_cases)
    case (1 f R df bf b k r pl out g y)
    show ?case
      apply (intro allI impI)
      apply (subst loop_fn.simps)
      using 1 
      apply (auto simp: spawn_fn_eq_pred Let_def split: prod.splits if_splits)
      done
  qed
  then show ?thesis by simp
qed

lemma loop_fn_eq_pred: "loop_fn R df b k r pl out g = loop_pred R df (\<lambda>_. True) b k r pl out g"
proof (cases "loop_fn R df b k r pl out g")
  case None
  then show ?thesis
    using loop_pred_imp_fn[of R df b k r pl out g]
    by (cases "loop_pred R df (\<lambda>_. True) b k r pl out g") auto
next
  case (Some y)
  then show ?thesis using loop_fn_imp_pred by fastforce
qed

lemma pdd_sep_eq_fn:
  "poissonDiskDistribution_sep R r0 sep b init k = poissonDiskDistribution_fn R r0 (\<lambda>_. sep) b init k"
  by (simp add: poissonDiskDistribution_sep_def poissonDiskDistribution_fn_def loop_sep_eq_fn
      split: sum.splits prod.splits)

lemma pdd_fn_eq_pred:
  "poissonDiskDistribution_fn R r0 df b init k =
   poissonDiskDistribution_pred R r0 df (\<lambda>_. True) b init k"
  by (simp add: poissonDiskDistribution_fn_def poissonDiskDistribution_pred_def loop_fn_eq_pred
      split: sum.splits prod.splits)



section \<open>Invariants of the loops\<close>

lemma spawn_pred_Suc:
  "spawn_pred R d bf b c (Suc n) (r, pl, out, g) =
     (case candidate R r c d of (p, r2) \<Rightarrow>
        if Rectf_contains b p \<and> bf p \<and> \<not> hasNeighbors g p d
        then spawn_pred R d bf b c n (r2, pl @ [p], out @ [p], add g p)
        else spawn_pred R d bf b c n (r2, pl, out, g))"
  by (simp add: candidate_def Let_def split: prod.splits)

lemma spawn_pred_invariant:
  assumes "J pl out g"
    and "\<And>pl out g p. J pl out g \<Longrightarrow> Rectf_contains b p \<Longrightarrow> bf p \<Longrightarrow> \<not> hasNeighbors g p d
           \<Longrightarrow> \<exists>r. p = fst (candidate R r c d) \<Longrightarrow> J (pl @ [p]) (out @ [p]) (add g p)"
  shows "case spawn_pred R d bf b c n (r, pl, out, g) of (r', pl', out', g') \<Rightarrow> J pl' out' g'"
  using assms(1)
proof (induction n arbitrary: r pl out g)
  case 0
  then show ?case by simp
next
  case (Suc n)
  obtain p r2 where c: "candidate R r c d = (p, r2)"
    by (cases "candidate R r c d")
  show ?case
  proof (cases "Rectf_contains b p \<and> bf p \<and> \<not> hasNeighbors g p d")
    case True
    have "\<exists>r. p = fst (candidate R r c d)"
      using c by (metis fst_conv)
    with True have "J (pl @ [p]) (out @ [p]) (add g p)"
      using assms(2) Suc.prems by blast
    from Suc.IH[OF this] show ?thesis
      using True c by (simp add: spawn_pred_Suc del: spawn_pred.simps)
  next
    case False
    from Suc.IH[OF Suc.prems] show ?thesis
      using False c by (auto simp: spawn_pred_Suc simp del: spawn_pred.simps)
  qed
qed

lemma loop_pred_invariant:
  assumes run: "loop_pred R df bf b k r pl out g = Some (Inr res)"
    and init: "J pl out g"
    and step: "\<And>pl out g i r1 r2 pl2 out2 g2. J pl out g \<Longrightarrow> i < length pl \<Longrightarrow>
        spawn_pred R (df (pl ! i)) bf b (pl ! i) (nat k) (r1, erase pl i, out, g) = (r2, pl2, out2, g2)
          \<Longrightarrow> J pl2 out2 g2"
  shows "\<exists>g'. J [] res g'"
proof -
  have "\<forall>res'. (Inr res :: error + vec2 list) = Inr res' \<longrightarrow> R = R \<longrightarrow> df = df \<longrightarrow> bf = bf \<longrightarrow> b = b \<longrightarrow> k = k \<longrightarrow> J pl out g \<longrightarrow> (\<exists>g'. J [] res' g')"
  proof (rule loop_pred.raw_induct[where P = "\<lambda>R' df' bf' b' k' r pl out g y.
           \<forall>res. y = Inr res \<longrightarrow> R' = R \<longrightarrow> df' = df \<longrightarrow> bf' = bf \<longrightarrow> b' = b \<longrightarrow> k' = k \<longrightarrow> J pl out g \<longrightarrow> (\<exists>g'. J [] res g')", OF _ run], goal_cases)
    case (1 f R' df' bf' b' k' r pl out g y)
    show ?case
    proof (intro allI impI)
      fix res
      assume y: "y = Inr res" and eqs: "R' = R" "df' = df" "bf' = bf" "b' = b" "k' = k"
        and J: "J pl out g"
      show "\<exists>g'. J [] res g'"
      proof (cases "pl = []")
        case True
        then show ?thesis using 1(2) y J by auto
      next
        case False
        obtain i r1 where ri: "randInt R r 0 (int (length pl) - 1) = (i, r1)"
          by (cases "randInt R r 0 (int (length pl) - 1)")
        have rng: "0 \<le> i" "i < int (length pl)"
          using 1(2) False ri y eqs by (auto split: if_splits)
        obtain r2 pl2 out2 g2 where
          sp: "spawn_pred R (df (pl ! nat i)) bf b (pl ! nat i) (nat k) (r1, erase pl (nat i), out, g)
                 = (r2, pl2, out2, g2)"
          by (cases "spawn_pred R (df (pl ! nat i)) bf b (pl ! nat i) (nat k) (r1, erase pl (nat i), out, g)")
        have "f R df bf b k r2 pl2 out2 g2 = Some y"
          using 1(2) False ri rng sp eqs by (simp add: Let_def)
        moreover have "J pl2 out2 g2"
          using step[OF J _ sp] rng by simp
        ultimately show ?thesis
          using 1(1) y by blast
      qed
    qed
  qed
  then show ?thesis using init by simp
qed


section \<open>The seed and the points generated after it\<close>

lemma add_initial_eq:
  "add_initial ps (pl, out, g) = (pl @ ps, out @ ps, fold (\<lambda>p g. add g p) ps g)"
  by (induction ps arbitrary: pl out g) simp_all

lemma seed_eq:
  "seed b init =
     (case Grid_new (Area_of_Rectf b) 3 of
        Inl e \<Rightarrow> Inl e
      | Inr g0 \<Rightarrow>
          (let s = (if init = [] then [Rectf_getCenter b] else init)
           in Inr (s, s, fold (\<lambda>p g. add g p) s g0)))"
  by (simp add: seed_def add_initial_eq Let_def split: sum.splits)

lemma pdd_pred_built:
  assumes "Grid_new (Area_of_Rectf b) 3 = Inr g0"
  shows "poissonDiskDistribution_pred R r0 df bf b init k =
           loop_pred R df bf b k r0
             (if init = [] then [Rectf_getCenter b] else init)
             (if init = [] then [Rectf_getCenter b] else init)
             (fold (\<lambda>p g. add g p) (if init = [] then [Rectf_getCenter b] else init) g0)"
  using assms by (simp add: poissonDiskDistribution_pred_def seed_eq Let_def)

lemma pdd_pred_not_built:
  assumes "Grid_new (Area_of_Rectf b) 3 = Inl e"
  shows "poissonDiskDistribution_pred R r0 df bf b init k = Some (Inl e)"
  using assms by (simp add: poissonDiskDistribution_pred_def seed_eq)

lemma pdd_pred_returns_built:
  assumes "poissonDiskDistribution_pred R r0 df bf b init k = Some (Inr out)"
  shows "\<exists>g0. Grid_new (Area_of_Rectf b) 3 = Inr g0"
  using assms by (cases "Grid_new (Area_of_Rectf b) 3") (simp_all add: pdd_pred_not_built)

lemma spawn_pred_0 [simp]: "spawn_pred R d bf b c 0 st = st"
  by simp

lemma length_erase: "i < length xs \<Longrightarrow> length (erase xs i) = length xs - 1"
  by (simp add: erase_def)


lemma loop_pred_drain:
  assumes "rand_ok R" and "k \<le> 0"
  shows "loop_pred R df bf b k r pl out g = Some (Inr out)"
proof (induction "length pl" arbitrary: r pl)
  case 0
  then show ?case by (subst loop_pred.simps) simp
next
  case (Suc n)
  obtain i r1 where ri: "randInt R r 0 (int (length pl) - 1) = (i, r1)"
    by (cases "randInt R r 0 (int (length pl) - 1)")
  have ne: "pl \<noteq> []" using Suc.hyps(2) by (cases pl) simp_all
  have "0 \<le> int (length pl) - 1" using ne by (cases pl) simp_all
  then have rng: "0 \<le> i" "i \<le> int (length pl) - 1"
    using assms(1) ri unfolding rand_ok_def by (metis fst_conv)+
  have len: "n = length (erase pl (nat i))"
    using rng Suc.hyps(2) by (simp add: length_erase)
  have "loop_pred R df bf b k r pl out g = loop_pred R df bf b k r1 (erase pl (nat i)) out g"
    using ri rng ne assms(2) by (subst loop_pred.simps) (auto simp: Let_def)
  then show ?case using Suc.hyps(1)[OF len] by simp
qed

lemma pdd_pred_nonpositive:
  assumes "rand_ok R" and "k \<le> 0" and "Grid_new (Area_of_Rectf b) 3 = Inr g0"
  shows "poissonDiskDistribution_pred R r0 df bf b init k =
           Some (Inr (if init = [] then [Rectf_getCenter b] else init))"
  using loop_pred_drain[OF assms(1,2)] by (simp add: pdd_pred_built[OF assms(3)])


lemma pdd_pred_generated:
  assumes run: "poissonDiskDistribution_pred R r0 df bf b init k = Some (Inr out)"
  shows "\<exists>ys. out = (if init = [] then [Rectf_getCenter b] else init) @ ys
            \<and> (\<forall>p\<in>set ys. Rectf_contains b p \<and> bf p)"
proof -
  define s where "s = (if init = [] then [Rectf_getCenter b] else init)"
  define J where "J = (\<lambda>(pl :: vec2 list) out (g :: Grid).
      \<exists>ys. out = s @ ys \<and> (\<forall>p\<in>set ys. Rectf_contains b p \<and> bf p))"
  obtain g' where g': "Grid_new (Area_of_Rectf b) 3 = Inr g'"
    using pdd_pred_returns_built[OF run] by blast
  define g0 where "g0 = fold (\<lambda>p g. add g p) s g'"
  have run': "loop_pred R df bf b k r0 s s g0 = Some (Inr out)"
    using run by (simp add: pdd_pred_built[OF g'] s_def g0_def)
  have init: "J s s g0" by (simp add: J_def)
  have step: "J pl2 out2 g2"
    if "J pl out g" and "i < length pl"
      and sp: "spawn_pred R (df (pl ! i)) bf b (pl ! i) (nat k) (r1, erase pl i, out, g) = (r2, pl2, out2, g2)"
    for pl out g i r1 r2 pl2 out2 g2
  proof -
    have "case spawn_pred R (df (pl ! i)) bf b (pl ! i) (nat k) (r1, erase pl i, out, g) of
            (r', pl', out', g') \<Rightarrow> J pl' out' g'"
    proof (rule spawn_pred_invariant)
      show "J (erase pl i) out g" using that(1) by (simp add: J_def)
    next
      fix pl out g p
      assume "J pl out g" "Rectf_contains b p" "bf p"
      then show "J (pl @ [p]) (out @ [p]) (add g p)"
        by (auto simp: J_def)
    qed
    then show ?thesis using sp by simp
  qed
  from loop_pred_invariant[where J = J, OF run' init step]
  show ?thesis by (auto simp: J_def s_def)
qed


section \<open>Runs that do not return, and runs without candidates\<close>







lemma pdd_pred_nonpositive_output:
  assumes "k \<le> 0"
    and run: "poissonDiskDistribution_pred R r0 df bf b init k = Some (Inr out)"
  shows "out = (if init = [] then [Rectf_getCenter b] else init)"
proof -
  define s where "s = (if init = [] then [Rectf_getCenter b] else init)"
  obtain g' where g': "Grid_new (Area_of_Rectf b) 3 = Inr g'"
    using pdd_pred_returns_built[OF run] by blast
  define g0 where "g0 = fold (\<lambda>p g. add g p) s g'"
  have run': "loop_pred R df bf b k r0 s s g0 = Some (Inr out)"
    using run by (simp add: pdd_pred_built[OF g'] s_def g0_def)
  have "\<exists>g'. (\<lambda>(pl :: vec2 list) out (g :: Grid). out = s) [] out g'"
    by (rule loop_pred_invariant[OF run']) (use assms(1) in auto)
  then show ?thesis by (simp add: s_def)
qed


section \<open>The cell of a point\<close>

text \<open>
  The 32-bit computations of \<^verbatim>\<open>Grid::add\<close> and \<^verbatim>\<open>Grid::resize\<close>, read as computations on
  integers when no intermediate value leaves the range of \<^verbatim>\<open>int\<close>.
\<close>

lemma sint_word_of_int_32:
  fixes n :: int
  assumes "- (2 ^ 31) \<le> n" and "n < 2 ^ 31"
  shows "sint (word_of_int n :: 32 word) = n"
proof -
  have "sint (word_of_int n :: 32 word) = signed_take_bit (LENGTH(32) - 1) n"
    by (rule sint_sbintrunc')
  also have "\<dots> = signed_take_bit 31 n" by simp
  also have "\<dots> = n"
    using assms by (rule signed_take_bit_int_eq_self)
  finally show ?thesis .
qed

lemma flat_index_word:
  "(word_of_int x + word_of_int n * word_of_int y :: 32 word) = word_of_int (x + n * y)"
  by simp

lemma cell_coordinate:
  fixes a b :: int
  assumes "0 \<le> a + b" and "a + b < 2 ^ 31"
  shows "sint (drop_bit k (word_of_int a + word_of_int b :: 32 word)) = (a + b) div 2 ^ k"
proof -
  have w: "(word_of_int a + word_of_int b :: 32 word) = word_of_int (a + b)"
    by simp
  have "uint (word_of_int (a + b) :: 32 word) = (a + b) mod 2 ^ LENGTH(32)"
    by (rule uint_word_of_int)
  also have "\<dots> = a + b"
    using assms by simp
  finally have u: "uint (word_of_int (a + b) :: 32 word) = a + b" .
  have "uint (drop_bit k (word_of_int (a + b) :: 32 word))
          = drop_bit k (take_bit LENGTH(32) (uint (word_of_int (a + b) :: 32 word)))"
    by (rule unsigned_drop_bit_eq)
  also have "\<dots> = (a + b) div 2 ^ k"
    unfolding u using assms by (simp add: drop_bit_eq_div take_bit_int_eq_self del: of_int_add)
  finally have d: "uint (drop_bit k (word_of_int (a + b) :: 32 word)) = (a + b) div 2 ^ k" .
  have le: "(a + b) div 2 ^ k \<le> a + b"
    using zdiv_mono2[of "a + b" 1 "2 ^ k"] assms(1) by simp
  have nn: "0 \<le> (a + b) div 2 ^ k"
    using assms(1) by (simp add: pos_imp_zdiv_nonneg_iff)
  have lt: "(a + b) div 2 ^ k < 2 ^ 31"
    using le assms(2) by linarith
  have "(0 :: int) \<le> 2 ^ 31" by simp
  then have "- (2 ^ 31) \<le> (a + b) div 2 ^ k"
    using nn by linarith
  then have s: "signed_take_bit 31 ((a + b) div 2 ^ k) = (a + b) div 2 ^ k"
    using lt by (rule signed_take_bit_int_eq_self)
  have l: "LENGTH(32) - Suc 0 = 31" by simp
  have "sint (drop_bit k (word_of_int (a + b) :: 32 word))
          = signed_take_bit (LENGTH(32) - Suc 0) (uint (drop_bit k (word_of_int (a + b) :: 32 word)))"
    by (rule sint_uint)
  also have "\<dots> = signed_take_bit 31 ((a + b) div 2 ^ k)"
    unfolding l d ..
  also have "\<dots> = (a + b) div 2 ^ k"
    by (rule s)
  finally have "sint (drop_bit k (word_of_int (a + b) :: 32 word)) = (a + b) div 2 ^ k" .
  then show ?thesis by (simp only: w)
qed

lemma ftoi_nonneg: "0 \<le> r \<Longrightarrow> ftoi r = \<lfloor>r\<rfloor>"
  by (simp add: ftoi_def)

lemma ftoi_mono: "a \<le> b \<Longrightarrow> ftoi a \<le> ftoi b"
proof -
  assume ab: "a \<le> b"
  show ?thesis
  proof (cases "0 \<le> a")
    case True
    then show ?thesis using ab by (simp add: ftoi_def floor_mono)
  next
    case False
    show ?thesis
    proof (cases "0 \<le> b")
      case True
      have "\<lceil>a\<rceil> \<le> 0" using False by (simp add: ceiling_le_zero)
      moreover have "0 \<le> \<lfloor>b\<rfloor>" using True by simp
      moreover have "ftoi a = \<lceil>a\<rceil>" using False by (simp add: ftoi_def)
      moreover have "ftoi b = \<lfloor>b\<rfloor>" using True by (simp add: ftoi_def)
      ultimately show ?thesis by linarith
    next
      case b: False
      then show ?thesis using False ab by (simp add: ftoi_def ceiling_mono)
    qed
  qed
qed

lemma ftoi_of_int: "ftoi (of_int n) = n"
  by (simp add: ftoi_def)

lemma ftoi_bounded:
  assumes "\<bar>x\<bar> \<le> 2 ^ 23"
  shows "- (2 ^ 23) \<le> ftoi x" and "ftoi x \<le> 2 ^ 23"
proof -
  have "ftoi (of_int (- (2 ^ 23))) \<le> ftoi x"
    by (rule ftoi_mono) (use assms in simp)
  then show "- (2 ^ 23) \<le> ftoi x" by (simp only: ftoi_of_int)
  have "ftoi x \<le> ftoi (of_int (2 ^ 23))"
    by (rule ftoi_mono) (use assms in simp)
  then show "ftoi x \<le> 2 ^ 23" by (simp only: ftoi_of_int)
qed

lemma floor_cell:
  fixes x :: real and off :: int
  shows "\<lfloor>(x + real_of_int off) / real (2 ^ k)\<rfloor> = (\<lfloor>x\<rfloor> + off) div 2 ^ k"
proof -
  have "\<lfloor>(x + real_of_int off) / real_of_int (2 ^ k)\<rfloor> = \<lfloor>x + real_of_int off\<rfloor> div 2 ^ k"
    by (rule floor_divide_real_eq_div) simp
  then show ?thesis by simp
qed

lemma add_fields [simp]:
  "mNumCells (add g p) = mNumCells g" "mOffset (add g p) = mOffset g"
  "mBounds (add g p) = mBounds g" "mK (add g p) = mK g" "mCellSize (add g p) = mCellSize g"
  "length (mGrid (add g p)) = length (mGrid g)"
  by (simp_all add: add_def Let_def)

lemma fold_add_fields [simp]:
  "mNumCells (fold (\<lambda>q g. add g q) qs g) = mNumCells g"
  "mOffset (fold (\<lambda>q g. add g q) qs g) = mOffset g"
  "mBounds (fold (\<lambda>q g. add g q) qs g) = mBounds g"
  "mK (fold (\<lambda>q g. add g q) qs g) = mK g"
  "mCellSize (fold (\<lambda>q g. add g q) qs g) = mCellSize g"
  "length (mGrid (fold (\<lambda>q g. add g q) qs g)) = length (mGrid g)"
  by (induction qs arbitrary: g) simp_all

lemma Grid_new_fields:
  assumes "Grid_new area k = Inr g"
  shows "mK g = k" "mCellSize g = 2 ^ k"
    "mOffset g = (\<bar>ax1 area\<bar>, \<bar>ay1 area\<bar>)"
    "mBounds g = area"
    "mNumCells g = (\<lceil>real_of_int (ax2 area - ax1 area) / real (2 ^ k)\<rceil>,
                    \<lceil>real_of_int (ay2 area - ay1 area) / real (2 ^ k)\<rceil>)"
    "length (mGrid g) =
       nat (sint (word_of_int (fst (mNumCells g)) * word_of_int (snd (mNumCells g)) :: 32 word))"
  using assms
  by (auto simp: Grid_new_def resize_def Let_def Area_getUL_def Area_getSize_def
      split: if_splits)

lemma ceiling_cells: "0 \<le> a \<Longrightarrow> 0 \<le> \<lceil>real_of_int a / real (2 ^ k)\<rceil>"
proof -
  assume "0 \<le> a"
  then have "0 \<le> real_of_int a / real (2 ^ k)" by simp
  then show ?thesis by (simp only: zero_le_ceiling)
qed

lemma Grid_new_cells:
  assumes "Grid_new (Area_of_Rectf b) k = Inr g"
  shows "0 \<le> fst (mNumCells g)" "0 \<le> snd (mNumCells g)"
  using ceiling_cells[of "ax2 (Area_of_Rectf b) - ax1 (Area_of_Rectf b)" k]
    ceiling_cells[of "ay2 (Area_of_Rectf b) - ay1 (Area_of_Rectf b)" k]
  by (simp_all add: Grid_new_fields(5)[OF assms] Area_of_Rectf_def Area_set_def)

lemma Grid_new_length:
  assumes "Grid_new (Area_of_Rectf b) k = Inr g"
    and "fst (mNumCells g) * snd (mNumCells g) < 2 ^ 31"
  shows "length (mGrid g) = nat (fst (mNumCells g) * snd (mNumCells g))"
proof -
  have "0 \<le> fst (mNumCells g) * snd (mNumCells g)"
    using Grid_new_cells[OF assms(1)] by simp
  moreover have "(0 :: int) \<le> 2 ^ 31" by simp
  ultimately have "- (2 ^ 31) \<le> fst (mNumCells g) * snd (mNumCells g)"
    by linarith
  then have "sint (word_of_int (fst (mNumCells g) * snd (mNumCells g)) :: 32 word)
               = fst (mNumCells g) * snd (mNumCells g)"
    using assms(2) by (rule sint_word_of_int_32)
  then show ?thesis
    by (simp add: Grid_new_fields(6)[OF assms(1)])
qed

lemma grid_fits_built:
  assumes "grid_fits b"
  shows "\<exists>g. Grid_new (Area_of_Rectf b) 3 = Inr g
            \<and> fst (mNumCells g) * snd (mNumCells g) < 2 ^ 31"
proof -
  let ?a = "Area_of_Rectf b"
  let ?nx = "\<lceil>real_of_int (ax2 ?a - ax1 ?a) / 8\<rceil>"
  let ?ny = "\<lceil>real_of_int (ay2 ?a - ay1 ?a) / 8\<rceil>"
  have lt: "?nx * ?ny < 2 ^ 31"
    using assms by (simp add: grid_fits_def Let_def Area_getSize_def)
  have "0 \<le> ?nx" "0 \<le> ?ny"
    using ceiling_cells[of "ax2 ?a - ax1 ?a" 3] ceiling_cells[of "ay2 ?a - ay1 ?a" 3]
    by (simp_all add: Area_of_Rectf_def Area_set_def)
  then have nn: "0 \<le> ?nx * ?ny" by simp
  moreover have "(0 :: int) \<le> 2 ^ 31" by simp
  ultimately have "- (2 ^ 31) \<le> ?nx * ?ny" by linarith
  then have s: "sint (word_of_int (?nx * ?ny) :: 32 word) = ?nx * ?ny"
    using lt by (rule sint_word_of_int_32)
  have "sint (word_of_int ?nx * word_of_int ?ny :: 32 word) = ?nx * ?ny"
    using s by simp
  then show ?thesis
    using lt nn
    by (simp add: Grid_new_def resize_def Let_def Area_getSize_def)
qed

lemma cell_index_trunc:
  assumes "add_exact g p"
  shows "cell_index g p = sint (word_of_int (trunc_cell_index g p) :: 32 word)"
proof -
  have x: "sint (drop_bit (mK g) (word_of_int (ftoi (fst p)) + word_of_int (fst (mOffset g)) :: 32 word))
             = (ftoi (fst p) + fst (mOffset g)) div 2 ^ mK g"
    by (rule cell_coordinate) (use assms in \<open>simp_all add: add_exact_def\<close>)
  have y: "sint (drop_bit (mK g) (word_of_int (ftoi (snd p)) + word_of_int (snd (mOffset g)) :: 32 word))
             = (ftoi (snd p) + snd (mOffset g)) div 2 ^ mK g"
    by (rule cell_coordinate) (use assms in \<open>simp_all add: add_exact_def\<close>)
  show ?thesis
    by (simp only: cell_index_def ftou32_def Let_def x y flat_index_word trunc_cell_index_def)
qed

lemma spec_cell_index_trunc:
  assumes "mCellSize g = 2 ^ mK g" and "0 \<le> fst p" and "0 \<le> snd p"
  shows "spec_cell_index g p = trunc_cell_index g p"
  using assms floor_cell[of "fst p" "fst (mOffset g)" "mK g"]
    floor_cell[of "snd p" "snd (mOffset g)" "mK g"]
  by (simp add: spec_cell_index_def trunc_cell_index_def ftoi_nonneg)

lemma trunc_cell_index_nonneg:
  assumes "add_exact g p" and "0 \<le> fst (mNumCells g)"
  shows "0 \<le> trunc_cell_index g p"
proof -
  have "0 \<le> (ftoi (fst p) + fst (mOffset g)) div 2 ^ mK g"
    "0 \<le> (ftoi (snd p) + snd (mOffset g)) div 2 ^ mK g"
    using assms(1) by (simp_all add: add_exact_def pos_imp_zdiv_nonneg_iff)
  then show ?thesis
    using assms(2) by (simp add: trunc_cell_index_def)
qed

lemma add_exact_contained:
  assumes "representable b" and "Rectf_contains b p"
    and "mOffset g = (\<bar>ax1 (Area_of_Rectf b)\<bar>, \<bar>ay1 (Area_of_Rectf b)\<bar>)"
  shows "add_exact g p"
proof -
  have bx: "- (2 ^ 23) \<le> ftoi (rx1 b)" "ftoi (rx1 b) \<le> 2 ^ 23"
    and by': "- (2 ^ 23) \<le> ftoi (ry1 b)" "ftoi (ry1 b) \<le> 2 ^ 23"
    and cx: "ftoi (rx2 b) \<le> 2 ^ 23" and cy: "ftoi (ry2 b) \<le> 2 ^ 23"
    using assms(1) ftoi_bounded[of "rx1 b"] ftoi_bounded[of "ry1 b"]
      ftoi_bounded[of "rx2 b"] ftoi_bounded[of "ry2 b"]
    by (simp_all add: representable_def)
  have px: "ftoi (rx1 b) \<le> ftoi (fst p)" "ftoi (fst p) \<le> ftoi (rx2 b)"
    and py: "ftoi (ry1 b) \<le> ftoi (snd p)" "ftoi (snd p) \<le> ftoi (ry2 b)"
    using assms(2) by (simp_all add: Rectf_contains_def ftoi_mono)
  have ox: "fst (mOffset g) = \<bar>ftoi (rx1 b)\<bar>" and oy: "snd (mOffset g) = \<bar>ftoi (ry1 b)\<bar>"
    using px py by (simp_all add: assms(3) Area_of_Rectf_def Area_set_def)
  show ?thesis
    unfolding add_exact_def ox oy using bx by' cx cy px py by (simp, linarith)
qed

lemma add_stored:
  "stored g p \<Longrightarrow>
     mGrid (add g p) = (mGrid g)[nat (cell_index g p) := mGrid g ! nat (cell_index g p) @ [p]]"
  by (simp add: add_def stored_def Let_def)

lemma add_not_stored: "\<not> stored g p \<Longrightarrow> add g p = g"
  by (auto simp: add_def stored_def Let_def)

section \<open>The cells that the neighbour query reads\<close>

text \<open>
  \<^verbatim>\<open>Grid::hasNeighbors\<close> answers true exactly when a point of a scanned cell is closer
  than the radius; the scanned cells are cells of the grid.
\<close>

lemma list_ex_cells:
  "list_ex (\<lambda>y. list_ex (\<lambda>x. list_ex P (cells ! (x + n * y))) xs) ys \<longleftrightarrow>
     (\<exists>c\<in>set (concat (map (\<lambda>y. map (\<lambda>x. x + n * y) xs) ys)). \<exists>q\<in>set (cells ! c). P q)"
  by (auto simp: list_ex_iff)

lemma hasNeighbors_iff:
  "hasNeighbors g p r \<longleftrightarrow>
     (\<exists>c\<in>set (scanned g p r). \<exists>q\<in>set (mGrid g ! c). length2 (vsub p q) < r * r)"
proof -
  obtain minCell maxCell where "window g p r = (minCell, maxCell)"
    by (metis surj_pair)
  then show ?thesis
    by (simp only: hasNeighbors_def scanned_def list_ex_cells Let_def prod.case)
qed

lemma in_cells:
  "c \<in> set (concat (map (\<lambda>y. map (\<lambda>x. x + n * y) xs) ys)) \<longleftrightarrow>
     (\<exists>y\<in>set ys. \<exists>x\<in>set xs. c = x + n * y)"
  by auto

lemma window_nonneg:
  assumes "mOffset g = (\<bar>ax1 (mBounds g)\<bar>, \<bar>ay1 (mBounds g)\<bar>)"
    and "0 \<le> fst (mNumCells g)" and "0 \<le> snd (mNumCells g)"
    and "window g p r = (minCell, maxCell)"
  shows "0 \<le> fst minCell \<and> 0 \<le> snd minCell \<and> 0 \<le> fst maxCell \<and> 0 \<le> snd maxCell
         \<and> fst maxCell \<le> fst (mNumCells g) \<and> snd maxCell \<le> snd (mNumCells g)"
proof -
  have d: "0 \<le> (max a u + \<bar>u\<bar>) div 2 ^ n" for a u :: int and n :: nat
    by (simp add: pos_imp_zdiv_nonneg_iff) 
  show ?thesis
    using assms(4)[symmetric] assms(1-3) d
    by (auto simp: window_def Let_def imin_def imax_def isub_def iadd_def Area_getUL_def
        Area_getLR_def)
qed

lemma flat_index_less:
  fixes x y nx ny :: nat
  assumes "x < nx" and "y < ny"
  shows "x + nx * y < nx * ny"
proof -
  have "x + nx * y < nx + nx * y" using assms(1) by simp
  also have "\<dots> = nx * Suc y" by simp
  also have "\<dots> \<le> nx * ny" using assms(2) by (simp only: mult_le_mono2 Suc_leI)
  finally show ?thesis .
qed

lemma scanned_inside:
  assumes "Grid_new (Area_of_Rectf b) k = Inr g0"
    and "fst (mNumCells g0) * snd (mNumCells g0) < 2 ^ 31"
    and "g = fold (\<lambda>q g. add g q) qs g0"
    and "c \<in> set (scanned g p r)"
  shows "c < length (mGrid g)"
proof -
  obtain minCell maxCell where w: "window g p r = (minCell, maxCell)"
    by (metis surj_pair)
  have nc: "mNumCells g = mNumCells g0" and off: "mOffset g = mOffset g0"
    and bd: "mBounds g = mBounds g0" and len: "length (mGrid g) = length (mGrid g0)"
    using assms(3) by simp_all
  have n: "0 \<le> fst (mNumCells g)" "0 \<le> snd (mNumCells g)"
    using Grid_new_cells[OF assms(1)] nc by simp_all
  have o: "mOffset g = (\<bar>ax1 (mBounds g)\<bar>, \<bar>ay1 (mBounds g)\<bar>)"
    using off bd Grid_new_fields(3,4)[OF assms(1)] by simp
  from window_nonneg[OF o n w]
  have le: "fst maxCell \<le> fst (mNumCells g)" "snd maxCell \<le> snd (mNumCells g)" by simp_all
  have "\<exists>y\<in>set [nat (snd minCell)..<nat (snd maxCell)].
          \<exists>x\<in>set [nat (fst minCell)..<nat (fst maxCell)]. c = x + nat (fst (mNumCells g)) * y"
    using assms(4) unfolding scanned_def w prod.case in_cells .
  then obtain x y where c: "c = x + nat (fst (mNumCells g)) * y"
    and x: "x < nat (fst maxCell)" and y: "y < nat (snd maxCell)"
    by auto
  have "x < nat (fst (mNumCells g))" "y < nat (snd (mNumCells g))"
    using x y le by linarith+
  then have "c < nat (fst (mNumCells g)) * nat (snd (mNumCells g))"
    unfolding c by (rule flat_index_less)
  also have "\<dots> = length (mGrid g)"
    using len Grid_new_length[OF assms(1,2)] nc n by (simp add: nat_mult_distrib)
  finally show ?thesis .
qed

section \<open>Runs in bounds that are smaller than the separation\<close>













section \<open>Concrete runs\<close>

text \<open>
  Runs of the entry points on concrete inputs, evaluated one round of the outer loop
  after the other.
\<close>

lemma randInt_scripted [simp]: "randInt scripted s lo hi = (lo, s)"
  by (simp add: scripted_def)

lemma randFloat_scripted_Nil [simp]: "randFloat scripted [] = (0, [])"
  by (simp add: scripted_def)

lemma randFloat_scripted_Cons [simp]: "randFloat scripted (u # us) = (u, us)"
  by (simp add: scripted_def)

lemma rand_ok_scripted: "rand_ok scripted"
  by (simp add: rand_ok_def)



lemmas geometry_defs = Grid_new_def resize_def Area_of_Rectf_def Area_set_def Area_getSize_def
  Area_getUL_def Area_getLR_def ftoi_def

lemmas grid_defs = add_def cell_index_def ftou32_def hasNeighbors_def window_def
  imin_def imax_def isub_def iadd_def ivec2_of_def vsub_def length2_def

lemmas step_defs = erase_def vadd_def vscale_def Rectf_contains_def Rectf_getCenter_def

lemma grid_seventeen:
  "Grid_new (Area_of_Rectf \<lparr>rx1 = 0, ry1 = 0, rx2 = 17, ry2 = 8\<rparr>) 3 =
     Inr \<lparr>mGrid = [[], [], []], mNumCells = (3, 1), mOffset = (0, 0),
          mBounds = \<lparr>ax1 = 0, ay1 = 0, ax2 = 17, ay2 = 8\<rparr>, mK = 3, mCellSize = 8\<rparr>"
  by (simp add: geometry_defs Let_def numeral_3_eq_3)

lemma seed_seventeen:
  "seed \<lparr>rx1 = 0, ry1 = 0, rx2 = 17, ry2 = 8\<rparr> [(53 / 4, 5), (16, 5)] =
   Inr ([(53 / 4, 5), (16, 5)], [(53 / 4, 5), (16, 5)],
    \<lparr>mGrid = [[], [(53 / 4, 5)], [(16, 5)]], mNumCells = (3, 1), mOffset = (0, 0),
      mBounds = \<lparr>ax1 = 0, ay1 = 0, ax2 = 17, ay2 = 8\<rparr>, mK = 3, mCellSize = 8\<rparr>)"
  by (simp add: seed_def grid_seventeen) (simp add: geometry_defs grid_defs Let_def)

lemma run_seventeen:
  "poissonDiskDistribution_sep scripted [] (3 / 2) \<lparr>rx1 = 0, ry1 = 0, rx2 = 17, ry2 = 8\<rparr>
     [(53 / 4, 5), (16, 5)] 1 =
     Some (Inr [(53 / 4, 5), (16, 5), (59 / 4, 5)])"
  apply (simp add: poissonDiskDistribution_sep_def seed_seventeen)
  apply (subst loop_sep.simps)
  apply (simp add: step_defs Let_def)
  apply (simp add: grid_defs geometry_defs Let_def upt_conv_Cons)
  apply (subst loop_sep.simps)
  apply (simp add: step_defs Let_def)
  apply (subst loop_sep.simps)
  apply (simp add: step_defs Let_def)
  apply (simp add: grid_defs geometry_defs Let_def upt_conv_Cons)
  apply (subst loop_sep.simps)
  apply simp
  done

lemma grid_eight:
  "Grid_new (Area_of_Rectf \<lparr>rx1 = 0, ry1 = 0, rx2 = 8, ry2 = 8\<rparr>) 3 =
     Inr \<lparr>mGrid = [[]], mNumCells = (1, 1), mOffset = (0, 0),
          mBounds = \<lparr>ax1 = 0, ay1 = 0, ax2 = 8, ay2 = 8\<rparr>, mK = 3, mCellSize = 8\<rparr>"
  by (simp add: geometry_defs Let_def)

lemma seed_eight_empty:
  "seed \<lparr>rx1 = 0, ry1 = 0, rx2 = 8, ry2 = 8\<rparr> [] =
   Inr ([(4, 4)], [(4, 4)],
    \<lparr>mGrid = [[(4, 4)]], mNumCells = (1, 1), mOffset = (0, 0),
      mBounds = \<lparr>ax1 = 0, ay1 = 0, ax2 = 8, ay2 = 8\<rparr>, mK = 3, mCellSize = 8\<rparr>)"
  by (simp add: seed_def grid_eight) (simp add: geometry_defs grid_defs Rectf_getCenter_def Let_def)

lemma run_all_rejected:
  "poissonDiskDistribution_pred scripted [] (\<lambda>p. 1) (\<lambda>p. False)
     \<lparr>rx1 = 0, ry1 = 0, rx2 = 8, ry2 = 8\<rparr> [] 1 = Some (Inr [(4, 4)])"
  apply (simp add: poissonDiskDistribution_pred_def seed_eight_empty)
  apply (subst loop_pred.simps)
  apply (simp add: step_defs Let_def)
  apply (subst loop_pred.simps)
  apply simp
  done

lemma seed_eight_far:
  "seed \<lparr>rx1 = 0, ry1 = 0, rx2 = 8, ry2 = 8\<rparr> [(200, 200)] =
   Inr ([(200, 200)], [(200, 200)],
    \<lparr>mGrid = [[]], mNumCells = (1, 1), mOffset = (0, 0),
      mBounds = \<lparr>ax1 = 0, ay1 = 0, ax2 = 8, ay2 = 8\<rparr>, mK = 3, mCellSize = 8\<rparr>)"
  by (simp add: seed_def grid_eight) (simp add: geometry_defs grid_defs Let_def)

lemma run_far_initial:
  "poissonDiskDistribution_sep scripted [] (3 / 2) \<lparr>rx1 = 0, ry1 = 0, rx2 = 8, ry2 = 8\<rparr>
     [(200, 200)] 1 = Some (Inr [(200, 200)])"
  apply (simp add: poissonDiskDistribution_sep_def seed_eight_far)
  apply (subst loop_sep.simps)
  apply (simp add: step_defs Let_def)
  apply (subst loop_sep.simps)
  apply simp
  done

lemma seed_eight_close:
  "seed \<lparr>rx1 = 0, ry1 = 0, rx2 = 8, ry2 = 8\<rparr> [(1, 1), (2, 1)] =
   Inr ([(1, 1), (2, 1)], [(1, 1), (2, 1)],
    \<lparr>mGrid = [[(1, 1), (2, 1)]], mNumCells = (1, 1), mOffset = (0, 0),
      mBounds = \<lparr>ax1 = 0, ay1 = 0, ax2 = 8, ay2 = 8\<rparr>, mK = 3, mCellSize = 8\<rparr>)"
  by (simp add: seed_def grid_eight) (simp add: geometry_defs grid_defs Let_def)

lemma run_close_initial:
  "poissonDiskDistribution_sep scripted [] 10 \<lparr>rx1 = 0, ry1 = 0, rx2 = 8, ry2 = 8\<rparr>
     [(1, 1), (2, 1)] 1 = Some (Inr [(1, 1), (2, 1)])"
  apply (simp add: poissonDiskDistribution_sep_def seed_eight_close)
  apply (subst loop_sep.simps)
  apply (simp add: step_defs Let_def)
  apply (subst loop_sep.simps)
  apply (simp add: step_defs Let_def)
  apply (subst loop_sep.simps)
  apply simp
  done

lemma grid_five:
  "Grid_new (Area_of_Rectf \<lparr>rx1 = 0, ry1 = 0, rx2 = 5, ry2 = 5\<rparr>) 3 =
     Inr \<lparr>mGrid = [[]], mNumCells = (1, 1), mOffset = (0, 0),
          mBounds = \<lparr>ax1 = 0, ay1 = 0, ax2 = 5, ay2 = 5\<rparr>, mK = 3, mCellSize = 8\<rparr>"
  by (simp add: geometry_defs Let_def)

lemma seed_five_empty:
  "seed \<lparr>rx1 = 0, ry1 = 0, rx2 = 5, ry2 = 5\<rparr> [] =
   Inr ([(5 / 2, 5 / 2)], [(5 / 2, 5 / 2)],
    \<lparr>mGrid = [[(5 / 2, 5 / 2)]], mNumCells = (1, 1), mOffset = (0, 0),
      mBounds = \<lparr>ax1 = 0, ay1 = 0, ax2 = 5, ay2 = 5\<rparr>, mK = 3, mCellSize = 8\<rparr>)"
  by (simp add: seed_def grid_five) (simp add: geometry_defs grid_defs Rectf_getCenter_def Let_def)

lemma run_five_k1:
  "poissonDiskDistribution_sep scripted [0, 0, 0, 0, 1 / 2, 0, 1 / 2, 0] (9 / 8)
     \<lparr>rx1 = 0, ry1 = 0, rx2 = 5, ry2 = 5\<rparr> [] 1 =
     Some (Inr [(5 / 2, 5 / 2), (29 / 8, 5 / 2), (19 / 4, 5 / 2)])"
  apply (simp add: poissonDiskDistribution_sep_def seed_five_empty)
  apply (subst loop_sep.simps)
  apply (simp add: step_defs Let_def)
  apply (simp add: grid_defs geometry_defs Let_def upt_conv_Cons)
  apply (subst loop_sep.simps)
  apply (simp add: step_defs Let_def)
  apply (simp add: grid_defs geometry_defs Let_def upt_conv_Cons)
  apply (subst loop_sep.simps)
  apply (simp add: step_defs Let_def)
  apply (subst loop_sep.simps)
  apply simp
  done

lemma run_five_k2:
  "poissonDiskDistribution_sep scripted [0, 0, 0, 0, 1 / 2, 0, 1 / 2, 0] (9 / 8)
     \<lparr>rx1 = 0, ry1 = 0, rx2 = 5, ry2 = 5\<rparr> [] 2 =
     Some (Inr [(5 / 2, 5 / 2), (29 / 8, 5 / 2)])"
  apply (simp add: poissonDiskDistribution_sep_def seed_five_empty)
  apply (subst loop_sep.simps)
  apply (simp add: step_defs Let_def numeral_2_eq_2)
  apply (simp add: grid_defs geometry_defs Let_def upt_conv_Cons)
  apply (subst loop_sep.simps)
  apply (simp add: step_defs Let_def numeral_2_eq_2)
  apply (subst loop_sep.simps)
  apply simp
  done

lemma grid_minus_eight:
  "Grid_new (Area_of_Rectf \<lparr>rx1 = - 8, ry1 = - 8, rx2 = 8, ry2 = 8\<rparr>) 3 =
     Inr \<lparr>mGrid = [[], [], [], []], mNumCells = (2, 2), mOffset = (8, 8),
          mBounds = \<lparr>ax1 = - 8, ay1 = - 8, ax2 = 8, ay2 = 8\<rparr>, mK = 3, mCellSize = 8\<rparr>"
  by (simp add: geometry_defs Let_def eval_nat_numeral)

lemma ftoi_minus_half: "ftoi (- (1 / 2)) = 0"
proof -
  have "\<lceil>- (1 / 2) :: real\<rceil> = 0"
    by (simp add: ceiling_eq_iff)
  then show ?thesis by (simp add: ftoi_def)
qed

lemma grid_million:
  "Grid_new (Area_of_Rectf \<lparr>rx1 = 0, ry1 = 0, rx2 = 1000000, ry2 = 1000000\<rparr>) 3 = Inl LengthError"
  by (simp add: geometry_defs Let_def)

lemma grid_strip:
  "Grid_new (Area_of_Rectf \<lparr>rx1 = 0, ry1 = 0, rx2 = 256, ry2 = 8\<rparr>) 3 =
     Inr \<lparr>mGrid = replicate 32 [], mNumCells = (32, 1), mOffset = (0, 0),
          mBounds = \<lparr>ax1 = 0, ay1 = 0, ax2 = 256, ay2 = 8\<rparr>, mK = 3, mCellSize = 8\<rparr>"
  by (simp add: geometry_defs Let_def)

lemma cell_index_strip:
  "cell_index \<lparr>mGrid = replicate 32 [], mNumCells = (32, 1), mOffset = (0, 0),
          mBounds = \<lparr>ax1 = 0, ay1 = 0, ax2 = 256, ay2 = 8\<rparr>, mK = 3, mCellSize = 8\<rparr>
      (0, 1073741824) = 0"
  by (simp add: cell_index_def ftou32_def ftoi_def Let_def)

lemma seed_eight_border:
  "seed \<lparr>rx1 = 0, ry1 = 0, rx2 = 8, ry2 = 8\<rparr> [(13 / 2, 4), (43 / 8, 21 / 4)] =
   Inr ([(13 / 2, 4), (43 / 8, 21 / 4)], [(13 / 2, 4), (43 / 8, 21 / 4)],
    \<lparr>mGrid = [[(13 / 2, 4), (43 / 8, 21 / 4)]], mNumCells = (1, 1), mOffset = (0, 0),
      mBounds = \<lparr>ax1 = 0, ay1 = 0, ax2 = 8, ay2 = 8\<rparr>, mK = 3, mCellSize = 8\<rparr>)"
  by (simp add: seed_def grid_eight) (simp add: geometry_defs grid_defs Let_def)

lemma run_border:
  "poissonDiskDistribution_sep scripted [0, 0, 3 / 4, 0] (3 / 2)
     \<lparr>rx1 = 0, ry1 = 0, rx2 = 8, ry2 = 8\<rparr> [(13 / 2, 4), (43 / 8, 21 / 4)] 1 =
     Some (Inr [(13 / 2, 4), (43 / 8, 21 / 4), (8, 4), (8, 21 / 4)])"
  apply (simp add: poissonDiskDistribution_sep_def seed_eight_border)
  apply (subst loop_sep.simps)
  apply (simp add: step_defs Let_def)
  apply (simp add: grid_defs geometry_defs Let_def upt_conv_Cons)
  apply (subst loop_sep.simps)
  apply (simp add: step_defs Let_def)
  apply (simp add: grid_defs geometry_defs Let_def upt_conv_Cons)
  apply (subst loop_sep.simps)
  apply (simp add: step_defs Let_def)
  apply (subst loop_sep.simps)
  apply (simp add: step_defs Let_def)
  apply (subst loop_sep.simps)
  apply simp
  done

section \<open>A run in a segment that does not return\<close>











section \<open>Claims\<close>

subsection \<open>C9: one operation, three entry points\<close>

text \<open>
  C9. For every random source, generator state and input, the constant-separation
  entry point returns what the separation-function entry point returns for the
  constant function, and the separation-function entry point returns what the
  entry point with an admissibility predicate returns for the predicate that is
  always true. The equalities include the runs that do not return.
\<close>

theorem C9_entry_points_are_specialisations:
  "poissonDiskDistribution_sep R r0 separation bounds initialSet k =
     poissonDiskDistribution_fn R r0 (\<lambda>p. separation) bounds initialSet k
   \<and> poissonDiskDistribution_fn R r0 distFunction bounds initialSet k =
     poissonDiskDistribution_pred R r0 distFunction (\<lambda>p. True) bounds initialSet k"
proof
  show "poissonDiskDistribution_sep R r0 separation bounds initialSet k =
     poissonDiskDistribution_fn R r0 (\<lambda>p. separation) bounds initialSet k"
    by (rule pdd_sep_eq_fn)
  show "poissonDiskDistribution_fn R r0 distFunction bounds initialSet k =
     poissonDiskDistribution_pred R r0 distFunction (\<lambda>p. True) bounds initialSet k"
    by (rule pdd_fn_eq_pred)
qed

subsection \<open>C10: no candidates for a non-positive k\<close>

text \<open>
  C10, as the specification states it, fails: the grid is built before \<open>k\<close> is looked
  at, and its constructor throws when the number of cells does not fit an \<^verbatim>\<open>int\<close>.
  Below, the bounds from \<open>(0, 0)\<close> to \<open>(1000000, 1000000)\<close> ask for 125000 cells on
  each axis; the product wraps around to -1554869184, and the run with \<open>k = 0\<close> ends
  with \<^verbatim>\<open>std::length_error\<close> instead of returning the centre of the bounds.
\<close>

theorem C10_grid_too_large_counterexample:
  "rand_ok scripted \<and> (0 :: int) \<le> 0
   \<and> sint (word_of_int 125000 * word_of_int 125000 :: 32 word) = - 1554869184
   \<and> poissonDiskDistribution_sep scripted [] 10
        \<lparr>rx1 = 0, ry1 = 0, rx2 = 1000000, ry2 = 1000000\<rparr> [] 0 = Some (Inl LengthError)"
  using rand_ok_scripted
  by (simp add: pdd_sep_eq_fn pdd_fn_eq_pred pdd_pred_not_built[OF grid_million])

text \<open>
  C10, amended. Take \<open>k \<le> 0\<close>, a random source whose \<^verbatim>\<open>randInt\<close> stays between its
  bounds, and bounds whose corners are within \<open>2^23\<close> of the origin. When the
  constructor of the grid throws, each of the three entry points ends with that
  exception. When it builds the grid, each of the three entry points returns, and
  returns exactly the initial set in its order when there is one, and exactly the
  centre of the bounds otherwise. It builds the grid whenever the number of cells
  (of size 8) is less than \<open>2^31\<close>.
\<close>

theorem C10_nonpositive_k_returns_seed:
  assumes "rand_ok R" and "k \<le> 0" and "representable bounds"
  shows "(Grid_new (Area_of_Rectf bounds) 3 = Inl e \<longrightarrow>
            poissonDiskDistribution_sep R r0 separation bounds initialSet k = Some (Inl e)
          \<and> poissonDiskDistribution_fn R r0 distFunction bounds initialSet k = Some (Inl e)
          \<and> poissonDiskDistribution_pred R r0 distFunction boundsFunction bounds initialSet k
              = Some (Inl e))
       \<and> (Grid_new (Area_of_Rectf bounds) 3 = Inr g \<longrightarrow>
            poissonDiskDistribution_sep R r0 separation bounds initialSet k =
              Some (Inr (if initialSet = [] then [Rectf_getCenter bounds] else initialSet))
          \<and> poissonDiskDistribution_fn R r0 distFunction bounds initialSet k =
              Some (Inr (if initialSet = [] then [Rectf_getCenter bounds] else initialSet))
          \<and> poissonDiskDistribution_pred R r0 distFunction boundsFunction bounds initialSet k =
              Some (Inr (if initialSet = [] then [Rectf_getCenter bounds] else initialSet)))
       \<and> (grid_fits bounds \<longrightarrow> (\<exists>g0. Grid_new (Area_of_Rectf bounds) 3 = Inr g0))"
proof (intro conjI impI)
  assume e: "Grid_new (Area_of_Rectf bounds) 3 = Inl e"
  show "poissonDiskDistribution_sep R r0 separation bounds initialSet k = Some (Inl e)"
    by (simp add: pdd_sep_eq_fn pdd_fn_eq_pred pdd_pred_not_built[OF e])
  show "poissonDiskDistribution_fn R r0 distFunction bounds initialSet k = Some (Inl e)"
    by (simp add: pdd_fn_eq_pred pdd_pred_not_built[OF e])
  show "poissonDiskDistribution_pred R r0 distFunction boundsFunction bounds initialSet k
          = Some (Inl e)"
    by (rule pdd_pred_not_built[OF e])
next
  assume g: "Grid_new (Area_of_Rectf bounds) 3 = Inr g"
  show "poissonDiskDistribution_sep R r0 separation bounds initialSet k =
          Some (Inr (if initialSet = [] then [Rectf_getCenter bounds] else initialSet))"
    using pdd_pred_nonpositive[OF assms(1,2) g] by (simp add: pdd_sep_eq_fn pdd_fn_eq_pred)
  show "poissonDiskDistribution_fn R r0 distFunction bounds initialSet k =
          Some (Inr (if initialSet = [] then [Rectf_getCenter bounds] else initialSet))"
    using pdd_pred_nonpositive[OF assms(1,2) g] by (simp add: pdd_fn_eq_pred)
  show "poissonDiskDistribution_pred R r0 distFunction boundsFunction bounds initialSet k =
          Some (Inr (if initialSet = [] then [Rectf_getCenter bounds] else initialSet))"
    by (rule pdd_pred_nonpositive[OF assms(1,2) g])
next
  assume "grid_fits bounds"
  then show "\<exists>g0. Grid_new (Area_of_Rectf bounds) 3 = Inr g0"
    using grid_fits_built by blast
qed

theorem C10_nonpositive_k_witness:
  "rand_ok scripted \<and> (-1 :: int) \<le> 0
   \<and> representable \<lparr>rx1 = 0, ry1 = 0, rx2 = 8, ry2 = 8\<rparr>
   \<and> grid_fits \<lparr>rx1 = 0, ry1 = 0, rx2 = 8, ry2 = 8\<rparr>
   \<and> poissonDiskDistribution_sep scripted [] 10 \<lparr>rx1 = 0, ry1 = 0, rx2 = 8, ry2 = 8\<rparr> [] (-1) =
       Some (Inr [(4, 4)])
   \<and> poissonDiskDistribution_fn scripted [] (\<lambda>p. 10) \<lparr>rx1 = 0, ry1 = 0, rx2 = 8, ry2 = 8\<rparr>
         [(1, 1), (2, 1)] (-1) = Some (Inr [(1, 1), (2, 1)])
   \<and> poissonDiskDistribution_pred scripted [] (\<lambda>p. 10) (\<lambda>p. False)
         \<lparr>rx1 = 0, ry1 = 0, rx2 = 8, ry2 = 8\<rparr> [] (-1) = Some (Inr [(4, 4)])
   \<and> representable \<lparr>rx1 = 0, ry1 = 0, rx2 = 1000000, ry2 = 1000000\<rparr>
   \<and> poissonDiskDistribution_pred scripted [] (\<lambda>p. 10) (\<lambda>p. False)
         \<lparr>rx1 = 0, ry1 = 0, rx2 = 1000000, ry2 = 1000000\<rparr> [(1, 1)] (-1)
       = Some (Inl LengthError)"
proof -
  have k: "(-1 :: int) \<le> 0" by simp
  have r8: "representable \<lparr>rx1 = 0, ry1 = 0, rx2 = 8, ry2 = 8\<rparr>"
    by (simp add: representable_def)
  have f8: "grid_fits \<lparr>rx1 = 0, ry1 = 0, rx2 = 8, ry2 = 8\<rparr>"
    by (simp add: grid_fits_def representable_def geometry_defs Let_def)
  have rm: "representable \<lparr>rx1 = 0, ry1 = 0, rx2 = 1000000, ry2 = 1000000\<rparr>"
    by (simp add: representable_def)
  show ?thesis
    using rand_ok_scripted k r8 f8 rm grid_eight grid_million
      C10_nonpositive_k_returns_seed[OF rand_ok_scripted k r8, of _ "[]" 10 "[]"
        "\<lambda>p. 10" "\<lambda>p. False"]
      C10_nonpositive_k_returns_seed[OF rand_ok_scripted k r8, of _ "[]" 10 "[(1, 1), (2, 1)]"
        "\<lambda>p. 10" "\<lambda>p. False"]
      C10_nonpositive_k_returns_seed[OF rand_ok_scripted k rm, of LengthError "[]" 10 "[(1, 1)]"
        "\<lambda>p. 10" "\<lambda>p. False"]
    by (simp add: Rectf_getCenter_def)
qed

subsection \<open>C6: the initial set is the prefix of the output\<close>



subsection \<open>C5: the seeded centre and the admissibility predicate\<close>

text \<open>
  C5, as the specification states it, fails: the centre that seeds a run with an empty
  initial set is never given to the admissibility predicate. Below, the predicate
  rejects every point, and the run still returns the centre of the bounds.
\<close>

theorem C5_center_rejected_counterexample:
  "\<not> (\<lambda>p. False) (Rectf_getCenter \<lparr>rx1 = 0, ry1 = 0, rx2 = 8, ry2 = 8\<rparr>)
   \<and> poissonDiskDistribution_pred scripted [] (\<lambda>p. 1) (\<lambda>p. False)
        \<lparr>rx1 = 0, ry1 = 0, rx2 = 8, ry2 = 8\<rparr> [] 1
      = Some (Inr [Rectf_getCenter \<lparr>rx1 = 0, ry1 = 0, rx2 = 8, ry2 = 8\<rparr>])"
  using run_all_rejected by (simp add: Rectf_getCenter_def)

text \<open>
  C5, amended. With an empty initial set, whatever the admissibility predicate is,
  an output that the entry point with a predicate returns is not empty, and its first
  point is the centre of the bounds.
\<close>

theorem C5_seeded_center_is_kept:
  assumes "poissonDiskDistribution_pred R r0 distFunction boundsFunction bounds [] k
             = Some (Inr out)"
  shows "out \<noteq> [] \<and> hd out = Rectf_getCenter bounds"
  using pdd_pred_generated[OF assms] by auto

theorem C5_seeded_center_is_kept_witness:
  "poissonDiskDistribution_pred scripted [] (\<lambda>p. 1) (\<lambda>p. False)
        \<lparr>rx1 = 0, ry1 = 0, rx2 = 8, ry2 = 8\<rparr> [] 1 = Some (Inr [(4, 4)])
   \<and> [(4, 4 :: real)] \<noteq> [] 
   \<and> hd [(4, 4)] = Rectf_getCenter \<lparr>rx1 = 0, ry1 = 0, rx2 = 8, ry2 = 8\<rparr>"
  using C5_seeded_center_is_kept[OF run_all_rejected] run_all_rejected by simp

subsection \<open>C2: containment\<close>

text \<open>
  C2, as the specification states it, fails: the points of the initial set are copied
  to the output without any test. Below, the initial point lies outside the bounds
  and is the output.
\<close>

theorem C2_initial_point_outside_counterexample:
  "poissonDiskDistribution_sep scripted [] (3 / 2) \<lparr>rx1 = 0, ry1 = 0, rx2 = 8, ry2 = 8\<rparr>
     [(200, 200)] 1 = Some (Inr [(200, 200)])
   \<and> \<not> Rectf_contains \<lparr>rx1 = 0, ry1 = 0, rx2 = 8, ry2 = 8\<rparr> (200, 200)"
  using run_far_initial by (simp add: Rectf_contains_def)

text \<open>
  C2, amended. An output that one of the three entry points returns is the seed (the
  initial set, or the centre of the bounds when the initial set is empty) followed by
  the generated points, and every generated point lies within the bounds and, for the
  entry point with an admissibility predicate, satisfies the predicate. The seeded
  centre lies within the bounds when their corners are ordered.
\<close>

theorem C2_generated_points_are_contained:
  "(poissonDiskDistribution_sep R r0 separation bounds initialSet k = Some (Inr out) \<longrightarrow>
      (\<exists>ys. out = (if initialSet = [] then [Rectf_getCenter bounds] else initialSet) @ ys
          \<and> (\<forall>p\<in>set ys. Rectf_contains bounds p)))
   \<and> (poissonDiskDistribution_fn R r0 distFunction bounds initialSet k = Some (Inr out) \<longrightarrow>
      (\<exists>ys. out = (if initialSet = [] then [Rectf_getCenter bounds] else initialSet) @ ys
          \<and> (\<forall>p\<in>set ys. Rectf_contains bounds p)))
   \<and> (poissonDiskDistribution_pred R r0 distFunction boundsFunction bounds initialSet k
        = Some (Inr out) \<longrightarrow>
      (\<exists>ys. out = (if initialSet = [] then [Rectf_getCenter bounds] else initialSet) @ ys
          \<and> (\<forall>p\<in>set ys. Rectf_contains bounds p \<and> boundsFunction p)))
   \<and> (rx1 bounds \<le> rx2 bounds \<and> ry1 bounds \<le> ry2 bounds \<longrightarrow>
        Rectf_contains bounds (Rectf_getCenter bounds))"
proof (intro conjI impI)
  assume "poissonDiskDistribution_sep R r0 separation bounds initialSet k = Some (Inr out)"
  then show "\<exists>ys. out = (if initialSet = [] then [Rectf_getCenter bounds] else initialSet) @ ys
          \<and> (\<forall>p\<in>set ys. Rectf_contains bounds p)"
    using pdd_pred_generated[of R r0 "\<lambda>p. separation" "\<lambda>p. True" bounds initialSet k out]
    by (simp add: pdd_sep_eq_fn pdd_fn_eq_pred)
next
  assume "poissonDiskDistribution_fn R r0 distFunction bounds initialSet k = Some (Inr out)"
  then show "\<exists>ys. out = (if initialSet = [] then [Rectf_getCenter bounds] else initialSet) @ ys
          \<and> (\<forall>p\<in>set ys. Rectf_contains bounds p)"
    using pdd_pred_generated[of R r0 distFunction "\<lambda>p. True" bounds initialSet k out]
    by (simp add: pdd_fn_eq_pred)
next
  assume "poissonDiskDistribution_pred R r0 distFunction boundsFunction bounds initialSet k
        = Some (Inr out)"
  then show "\<exists>ys. out = (if initialSet = [] then [Rectf_getCenter bounds] else initialSet) @ ys
          \<and> (\<forall>p\<in>set ys. Rectf_contains bounds p \<and> boundsFunction p)"
    by (rule pdd_pred_generated)
next
  assume "rx1 bounds \<le> rx2 bounds \<and> ry1 bounds \<le> ry2 bounds"
  then show "Rectf_contains bounds (Rectf_getCenter bounds)"
    by (simp add: Rectf_contains_def Rectf_getCenter_def)
qed

theorem C2_generated_points_are_contained_witness:
  "poissonDiskDistribution_sep scripted [] (3 / 2) \<lparr>rx1 = 0, ry1 = 0, rx2 = 17, ry2 = 8\<rparr>
        [(53 / 4, 5), (16, 5)] 1 = Some (Inr [(53 / 4, 5), (16, 5), (59 / 4, 5)])
   \<and> Rectf_contains \<lparr>rx1 = 0, ry1 = 0, rx2 = 17, ry2 = 8\<rparr> (59 / 4, 5)"
  using C2_generated_points_are_contained[of scripted "[]" "3 / 2"
      "\<lparr>rx1 = 0, ry1 = 0, rx2 = 17, ry2 = 8\<rparr>" "[(53 / 4, 5), (16, 5)]" 1
      "[(53 / 4, 5), (16, 5), (59 / 4, 5)]"] run_seventeen
  by auto

subsection \<open>C7: termination\<close>




subsection \<open>C8: the number of points and k\<close>

text \<open>
  C8, as the specification states it, fails: a larger \<open>k\<close> makes each processed point
  draw more values from the random source, so the later points are spawned from other
  values. Below, the same source (the same sequence of returned values), bounds,
  separation and initial set give three points for \<open>k = 1\<close> and two for \<open>k = 2\<close>.
\<close>

theorem C8_more_candidates_fewer_points_counterexample:
  "poissonDiskDistribution_sep scripted [0, 0, 0, 0, 1 / 2, 0, 1 / 2, 0] (9 / 8)
     \<lparr>rx1 = 0, ry1 = 0, rx2 = 5, ry2 = 5\<rparr> [] 1 =
     Some (Inr [(5 / 2, 5 / 2), (29 / 8, 5 / 2), (19 / 4, 5 / 2)])
   \<and> poissonDiskDistribution_sep scripted [0, 0, 0, 0, 1 / 2, 0, 1 / 2, 0] (9 / 8)
     \<lparr>rx1 = 0, ry1 = 0, rx2 = 5, ry2 = 5\<rparr> [] 2 =
     Some (Inr [(5 / 2, 5 / 2), (29 / 8, 5 / 2)])
   \<and> \<not> length [(5 / 2, 5 / 2), (29 / 8, 5 / 2), (19 / 4, 5 / 2 :: real)]
         \<le> length [(5 / 2, 5 / 2), (29 / 8, 5 / 2 :: real)]"
  using run_five_k1 run_five_k2 by simp

text \<open>
  C8, amended. With the random source, the bounds, the separation policy and the
  initial set fixed, a run with \<open>k1 \<le> 0\<close> returns no more points than a run with any
  other \<open>k2\<close> that returns: the former returns the seed, with which the latter starts.
  Between two positive values of \<open>k\<close> the numbers of points are not ordered.
\<close>

theorem C8_nonpositive_k_gives_fewest_points:
  assumes "k1 \<le> 0"
  shows "(poissonDiskDistribution_sep R r0 separation bounds initialSet k1 = Some (Inr out1)
            \<longrightarrow> poissonDiskDistribution_sep R r0 separation bounds initialSet k2 = Some (Inr out2)
            \<longrightarrow> length out1 \<le> length out2)
       \<and> (poissonDiskDistribution_fn R r0 distFunction bounds initialSet k1 = Some (Inr out1)
            \<longrightarrow> poissonDiskDistribution_fn R r0 distFunction bounds initialSet k2 = Some (Inr out2)
            \<longrightarrow> length out1 \<le> length out2)
       \<and> (poissonDiskDistribution_pred R r0 distFunction boundsFunction bounds initialSet k1
              = Some (Inr out1)
            \<longrightarrow> poissonDiskDistribution_pred R r0 distFunction boundsFunction bounds initialSet k2
              = Some (Inr out2)
            \<longrightarrow> length out1 \<le> length out2)"
proof -
  have main: "length out1 \<le> length out2"
    if "poissonDiskDistribution_pred R r0 df bf bounds initialSet k1 = Some (Inr out1)"
      and "poissonDiskDistribution_pred R r0 df bf bounds initialSet k2 = Some (Inr out2)"
    for df bf
    using pdd_pred_nonpositive_output[OF assms that(1)] pdd_pred_generated[OF that(2)]
    by auto
  show ?thesis
    using main[of "\<lambda>p. separation" "\<lambda>p. True"] main[of distFunction "\<lambda>p. True"]
      main[of distFunction boundsFunction]
    by (simp add: pdd_sep_eq_fn pdd_fn_eq_pred)
qed

theorem C8_nonpositive_k_witness:
  "(0 :: int) \<le> 0
   \<and> poissonDiskDistribution_sep scripted [] (3 / 2) \<lparr>rx1 = 0, ry1 = 0, rx2 = 17, ry2 = 8\<rparr>
        [(53 / 4, 5), (16, 5)] 0 = Some (Inr [(53 / 4, 5), (16, 5)])
   \<and> poissonDiskDistribution_sep scripted [] (3 / 2) \<lparr>rx1 = 0, ry1 = 0, rx2 = 17, ry2 = 8\<rparr>
        [(53 / 4, 5), (16, 5)] 1 = Some (Inr [(53 / 4, 5), (16, 5), (59 / 4, 5)])
   \<and> length [(53 / 4, 5), (16, 5 :: real)] \<le> length [(53 / 4, 5), (16, 5), (59 / 4, 5 :: real)]"
proof -
  have z: "(0 :: int) \<le> 0" by simp
  have r0: "poissonDiskDistribution_sep scripted [] (3 / 2)
        \<lparr>rx1 = 0, ry1 = 0, rx2 = 17, ry2 = 8\<rparr> [(53 / 4, 5), (16, 5)] 0
          = Some (Inr [(53 / 4, 5), (16, 5)])"
    using pdd_pred_nonpositive[OF rand_ok_scripted z grid_seventeen]
    by (simp add: pdd_sep_eq_fn pdd_fn_eq_pred)
  from C8_nonpositive_k_gives_fewest_points[OF z, of scripted "[]" "3 / 2"
      "\<lparr>rx1 = 0, ry1 = 0, rx2 = 17, ry2 = 8\<rparr>" "[(53 / 4, 5), (16, 5)]"
      "[(53 / 4, 5), (16, 5)]" 1 "[(53 / 4, 5), (16, 5), (59 / 4, 5)]"]
  show ?thesis using r0 run_seventeen by simp
qed

subsection \<open>C4: the cell of an inserted point\<close>

text \<open>
  C4, as the specification states it, fails, in two ways. \<^verbatim>\<open>Grid::add\<close> converts the
  coordinate to an integer before it adds the offset, and the conversion rounds towards
  zero: in the domain from \<open>(-8, -8)\<close> to \<open>(8, 8)\<close> the point \<open>(-1/2, -1/2)\<close> is stored in
  the last of the four cells (cell \<open>(1, 1)\<close>, flat index 3), while the floor of
  (coordinate + offset) / cellSize is 0 on both axes (flat index 0). And the flat index
  is computed in \<^verbatim>\<open>int\<close>: in the grid of 32 by 1 cells over the bounds from \<open>(0, 0)\<close> to
  \<open>(256, 8)\<close> the point \<open>(0, 2^30)\<close> has the cell coordinates \<open>(0, 2^27)\<close>, and
  \<open>0 + 32 * 2^27 = 2^32\<close> wraps around to 0: the point is retained, in cell 0.
\<close>

theorem C4_cell_counterexample:
  "Grid_new (Area_of_Rectf \<lparr>rx1 = - 8, ry1 = - 8, rx2 = 8, ry2 = 8\<rparr>) 3 =
     Inr \<lparr>mGrid = [[], [], [], []], mNumCells = (2, 2), mOffset = (8, 8),
          mBounds = \<lparr>ax1 = - 8, ay1 = - 8, ax2 = 8, ay2 = 8\<rparr>, mK = 3, mCellSize = 8\<rparr>
   \<and> Rectf_contains \<lparr>rx1 = - 8, ry1 = - 8, rx2 = 8, ry2 = 8\<rparr> (- 1 / 2, - 1 / 2)
   \<and> mGrid (add \<lparr>mGrid = [[], [], [], []], mNumCells = (2, 2), mOffset = (8, 8),
          mBounds = \<lparr>ax1 = - 8, ay1 = - 8, ax2 = 8, ay2 = 8\<rparr>, mK = 3, mCellSize = 8\<rparr>
              (- 1 / 2, - 1 / 2))
       = [[], [], [], [(- 1 / 2, - 1 / 2)]]
   \<and> spec_cell_index \<lparr>mGrid = [[], [], [], []], mNumCells = (2, 2), mOffset = (8, 8),
          mBounds = \<lparr>ax1 = - 8, ay1 = - 8, ax2 = 8, ay2 = 8\<rparr>, mK = 3, mCellSize = 8\<rparr>
              (- 1 / 2, - 1 / 2) = 0
   \<and> Grid_new (Area_of_Rectf \<lparr>rx1 = 0, ry1 = 0, rx2 = 256, ry2 = 8\<rparr>) 3 =
     Inr \<lparr>mGrid = replicate 32 [], mNumCells = (32, 1), mOffset = (0, 0),
          mBounds = \<lparr>ax1 = 0, ay1 = 0, ax2 = 256, ay2 = 8\<rparr>, mK = 3, mCellSize = 8\<rparr>
   \<and> spec_cell_index \<lparr>mGrid = replicate 32 [], mNumCells = (32, 1), mOffset = (0, 0),
          mBounds = \<lparr>ax1 = 0, ay1 = 0, ax2 = 256, ay2 = 8\<rparr>, mK = 3, mCellSize = 8\<rparr>
        (0, 1073741824) = 4294967296
   \<and> cell_index \<lparr>mGrid = replicate 32 [], mNumCells = (32, 1), mOffset = (0, 0),
          mBounds = \<lparr>ax1 = 0, ay1 = 0, ax2 = 256, ay2 = 8\<rparr>, mK = 3, mCellSize = 8\<rparr>
        (0, 1073741824) = 0
   \<and> stored \<lparr>mGrid = replicate 32 [], mNumCells = (32, 1), mOffset = (0, 0),
          mBounds = \<lparr>ax1 = 0, ay1 = 0, ax2 = 256, ay2 = 8\<rparr>, mK = 3, mCellSize = 8\<rparr>
        (0, 1073741824)"
  using grid_minus_eight grid_strip cell_index_strip
  by (simp add: Rectf_contains_def spec_cell_index_def add_def cell_index_def
      ftou32_def ftoi_minus_half stored_def Let_def)

text \<open>
  C4, amended. Let \<open>g\<close> be a grid as a run has it: built by the constructor, over bounds
  whose corners are within \<open>2^23\<close> of the origin, and filled by \<^verbatim>\<open>Grid::add\<close>. On each
  axis take the index (trunc (coordinate) + offset) div cellSize, where trunc rounds
  towards zero, and let \<open>trunc_cell_index\<close> be \<open>x + numCellsX * y\<close> for these two.
  For a point \<open>p\<close> for which, on each axis, the truncated coordinate plus the offset
  lies in \<open>[0, 2^31)\<close>, as it does for every point within the bounds, the flat index
  that \<^verbatim>\<open>Grid::add\<close> computes is \<open>trunc_cell_index\<close> wrapped around at 32 bits, hence
  \<open>trunc_cell_index\<close> itself when that is less than \<open>2^31\<close>; if moreover the coordinates
  of \<open>p\<close> are not negative, it is the cell of the specification,
  floor ((coordinate + offset) / cellSize). A retained point is appended to the cell of
  the flat index that \<^verbatim>\<open>Grid::add\<close> computes and no other cell changes; a point that
  is not retained leaves the grid as it is. (For a coordinate of -1 or less C++ leaves
  the conversion to \<^verbatim>\<open>uint32_t\<close> undefined; the statement is then about the wrap-around
  that the model takes.)
\<close>

theorem C4_cell_of_an_added_point:
  assumes "representable bounds" and "k < 31"
    and "Grid_new (Area_of_Rectf bounds) k = Inr g0"
    and "g = fold (\<lambda>q g. add g q) qs g0"
  shows "(Rectf_contains bounds p \<longrightarrow> add_exact g p)
       \<and> (add_exact g p \<longrightarrow>
            cell_index g p = sint (word_of_int (trunc_cell_index g p) :: 32 word))
       \<and> (add_exact g p \<and> trunc_cell_index g p < 2 ^ 31 \<longrightarrow>
            cell_index g p = trunc_cell_index g p)
       \<and> (add_exact g p \<and> trunc_cell_index g p < 2 ^ 31 \<and> 0 \<le> fst p \<and> 0 \<le> snd p \<longrightarrow>
            cell_index g p = spec_cell_index g p)
       \<and> (stored g p \<longrightarrow>
            mGrid (add g p) = (mGrid g)[nat (cell_index g p) := mGrid g ! nat (cell_index g p) @ [p]])
       \<and> (\<not> stored g p \<longrightarrow> add g p = g)"
proof -
  have cs: "mCellSize g = 2 ^ mK g"
    using assms(4) Grid_new_fields(1,2)[OF assms(3)] by simp
  have off: "mOffset g = (\<bar>ax1 (Area_of_Rectf bounds)\<bar>, \<bar>ay1 (Area_of_Rectf bounds)\<bar>)"
    using assms(4) Grid_new_fields(3)[OF assms(3)] by simp
  have nx: "0 \<le> fst (mNumCells g)"
    using assms(4) Grid_new_cells(1)[OF assms(3)] by simp
  have exact: "cell_index g p = trunc_cell_index g p"
    if a: "add_exact g p" and lt: "trunc_cell_index g p < 2 ^ 31"
  proof -
    have "0 \<le> trunc_cell_index g p"
      by (rule trunc_cell_index_nonneg[OF a nx])
    moreover have "(0 :: int) \<le> 2 ^ 31" by simp
    ultimately have "- (2 ^ 31) \<le> trunc_cell_index g p" by linarith
    then have "sint (word_of_int (trunc_cell_index g p) :: 32 word) = trunc_cell_index g p"
      using lt by (rule sint_word_of_int_32)
    then show ?thesis using cell_index_trunc[OF a] by simp
  qed
  show ?thesis
  proof (intro conjI impI)
    assume "Rectf_contains bounds p"
    then show "add_exact g p"
      using add_exact_contained[OF assms(1) _ off] by blast
  next
    assume "add_exact g p"
    then show "cell_index g p = sint (word_of_int (trunc_cell_index g p) :: 32 word)"
      by (rule cell_index_trunc)
  next
    assume "add_exact g p \<and> trunc_cell_index g p < 2 ^ 31"
    then show "cell_index g p = trunc_cell_index g p"
      using exact by blast
  next
    assume a: "add_exact g p \<and> trunc_cell_index g p < 2 ^ 31 \<and> 0 \<le> fst p \<and> 0 \<le> snd p"
    then have "cell_index g p = trunc_cell_index g p"
      using exact by blast
    then show "cell_index g p = spec_cell_index g p"
      using spec_cell_index_trunc[OF cs, of p] a by simp
  next
    assume "stored g p"
    then show "mGrid (add g p)
                 = (mGrid g)[nat (cell_index g p) := mGrid g ! nat (cell_index g p) @ [p]]"
      by (rule add_stored)
  next
    assume "\<not> stored g p"
    then show "add g p = g"
      by (rule add_not_stored)
  qed
qed

theorem C4_cell_of_an_added_point_witness:
  "representable \<lparr>rx1 = - 8, ry1 = - 8, rx2 = 8, ry2 = 8\<rparr> \<and> (3 :: nat) < 31
   \<and> Grid_new (Area_of_Rectf \<lparr>rx1 = - 8, ry1 = - 8, rx2 = 8, ry2 = 8\<rparr>) 3 =
       Inr \<lparr>mGrid = [[], [], [], []], mNumCells = (2, 2), mOffset = (8, 8),
            mBounds = \<lparr>ax1 = - 8, ay1 = - 8, ax2 = 8, ay2 = 8\<rparr>, mK = 3, mCellSize = 8\<rparr>
   \<and> Rectf_contains \<lparr>rx1 = - 8, ry1 = - 8, rx2 = 8, ry2 = 8\<rparr> (3 / 2, - 5 / 2)
   \<and> cell_index \<lparr>mGrid = [[], [], [], []], mNumCells = (2, 2), mOffset = (8, 8),
            mBounds = \<lparr>ax1 = - 8, ay1 = - 8, ax2 = 8, ay2 = 8\<rparr>, mK = 3, mCellSize = 8\<rparr>
       (3 / 2, - 5 / 2) = 1
   \<and> Rectf_contains \<lparr>rx1 = - 8, ry1 = - 8, rx2 = 8, ry2 = 8\<rparr> (3 / 2, 5 / 2)
   \<and> spec_cell_index \<lparr>mGrid = [[], [], [], []], mNumCells = (2, 2), mOffset = (8, 8),
            mBounds = \<lparr>ax1 = - 8, ay1 = - 8, ax2 = 8, ay2 = 8\<rparr>, mK = 3, mCellSize = 8\<rparr>
       (3 / 2, 5 / 2) = 3
   \<and> mGrid (add \<lparr>mGrid = [[], [], [], []], mNumCells = (2, 2), mOffset = (8, 8),
            mBounds = \<lparr>ax1 = - 8, ay1 = - 8, ax2 = 8, ay2 = 8\<rparr>, mK = 3, mCellSize = 8\<rparr>
              (3 / 2, 5 / 2))
       = [[], [], [], [(3 / 2, 5 / 2)]]
   \<and> Rectf_contains \<lparr>rx1 = - 8, ry1 = - 8, rx2 = 8, ry2 = 8\<rparr> (8, 0)
   \<and> cell_index \<lparr>mGrid = [[], [], [], []], mNumCells = (2, 2), mOffset = (8, 8),
            mBounds = \<lparr>ax1 = - 8, ay1 = - 8, ax2 = 8, ay2 = 8\<rparr>, mK = 3, mCellSize = 8\<rparr>
       (8, 0) = 4
   \<and> add \<lparr>mGrid = [[], [], [], []], mNumCells = (2, 2), mOffset = (8, 8),
            mBounds = \<lparr>ax1 = - 8, ay1 = - 8, ax2 = 8, ay2 = 8\<rparr>, mK = 3, mCellSize = 8\<rparr>
       (8, 0)
       = \<lparr>mGrid = [[], [], [], []], mNumCells = (2, 2), mOffset = (8, 8),
            mBounds = \<lparr>ax1 = - 8, ay1 = - 8, ax2 = 8, ay2 = 8\<rparr>, mK = 3, mCellSize = 8\<rparr>
   \<and> representable \<lparr>rx1 = 0, ry1 = 0, rx2 = 256, ry2 = 8\<rparr>
   \<and> Grid_new (Area_of_Rectf \<lparr>rx1 = 0, ry1 = 0, rx2 = 256, ry2 = 8\<rparr>) 3 =
       Inr \<lparr>mGrid = replicate 32 [], mNumCells = (32, 1), mOffset = (0, 0),
            mBounds = \<lparr>ax1 = 0, ay1 = 0, ax2 = 256, ay2 = 8\<rparr>, mK = 3, mCellSize = 8\<rparr>
   \<and> trunc_cell_index \<lparr>mGrid = replicate 32 [], mNumCells = (32, 1), mOffset = (0, 0),
            mBounds = \<lparr>ax1 = 0, ay1 = 0, ax2 = 256, ay2 = 8\<rparr>, mK = 3, mCellSize = 8\<rparr>
       (0, 1073741824) = 4294967296
   \<and> cell_index \<lparr>mGrid = replicate 32 [], mNumCells = (32, 1), mOffset = (0, 0),
            mBounds = \<lparr>ax1 = 0, ay1 = 0, ax2 = 256, ay2 = 8\<rparr>, mK = 3, mCellSize = 8\<rparr>
       (0, 1073741824) = 0"
proof -
  let ?b = "\<lparr>rx1 = - 8, ry1 = - 8, rx2 = 8, ry2 = 8\<rparr>"
  let ?g = "\<lparr>mGrid = [[], [], [], []], mNumCells = (2, 2), mOffset = (8, 8),
            mBounds = \<lparr>ax1 = - 8, ay1 = - 8, ax2 = 8, ay2 = 8\<rparr>, mK = 3, mCellSize = 8\<rparr>"
  let ?s = "\<lparr>mGrid = replicate 32 [], mNumCells = (32, 1), mOffset = (0, 0),
            mBounds = \<lparr>ax1 = 0, ay1 = 0, ax2 = 256, ay2 = 8\<rparr>, mK = 3, mCellSize = 8\<rparr>"
  have r: "representable ?b" by (simp add: representable_def)
  have k: "(3 :: nat) < 31" by simp
  have g: "?g = fold (\<lambda>q g. add g q) [] ?g" by simp
  have c1: "Rectf_contains ?b (3 / 2, - 5 / 2)" and c2: "Rectf_contains ?b (3 / 2, 5 / 2)"
    and c3: "Rectf_contains ?b (8, 0)"
    by (simp_all add: Rectf_contains_def)
  have t1: "trunc_cell_index ?g (3 / 2, - 5 / 2) = 1"
    and t2: "trunc_cell_index ?g (3 / 2, 5 / 2) = 3"
    and t3: "trunc_cell_index ?g (8, 0) = 4"
    by (simp_all add: trunc_cell_index_def ftoi_def)
  note cell = C4_cell_of_an_added_point[OF r k grid_minus_eight g]
  have e1: "add_exact ?g (3 / 2, - 5 / 2)"
    using cell[of "(3 / 2, - 5 / 2)"] c1 by blast
  have a: "cell_index ?g (3 / 2, - 5 / 2) = 1"
    using cell[of "(3 / 2, - 5 / 2)"] e1 t1 by simp
  have e2: "add_exact ?g (3 / 2, 5 / 2)"
    using cell[of "(3 / 2, 5 / 2)"] c2 by blast
  have b: "cell_index ?g (3 / 2, 5 / 2) = 3"
    using cell[of "(3 / 2, 5 / 2)"] e2 t2 by simp
  have s: "spec_cell_index ?g (3 / 2, 5 / 2) = 3"
    using cell[of "(3 / 2, 5 / 2)"] e2 t2 b by simp
  have st: "stored ?g (3 / 2, 5 / 2)"
    using b by (simp add: stored_def)
  have c: "mGrid (add ?g (3 / 2, 5 / 2)) = [[], [], [], [(3 / 2, 5 / 2)]]"
    using cell[of "(3 / 2, 5 / 2)"] st b by simp
  have e3: "add_exact ?g (8, 0)"
    using cell[of "(8, 0)"] c3 by blast
  have d: "cell_index ?g (8, 0) = 4"
    using cell[of "(8, 0)"] e3 t3 by simp
  have nst: "\<not> stored ?g (8, 0)"
    using d by (simp add: stored_def)
  have dropped: "add ?g (8, 0) = ?g"
    using cell[of "(8, 0)"] nst by blast
  have rs: "representable \<lparr>rx1 = 0, ry1 = 0, rx2 = 256, ry2 = 8\<rparr>"
    by (simp add: representable_def)
  have gs: "?s = fold (\<lambda>q g. add g q) [] ?s" by simp
  have es: "add_exact ?s (0, 1073741824)"
    by (simp add: add_exact_def ftoi_def)
  have ts: "trunc_cell_index ?s (0, 1073741824) = 4294967296"
    by (simp add: trunc_cell_index_def ftoi_def)
  have w: "cell_index ?s (0, 1073741824) = 0"
    using C4_cell_of_an_added_point[OF rs k grid_strip gs, of "(0, 1073741824)"] es ts
    by simp
  show ?thesis
    using r k grid_minus_eight c1 a c2 s c c3 d dropped rs grid_strip ts w by simp
qed

subsection \<open>C3: the neighbour query\<close>

text \<open>
  C3 fails on the code. The window of \<^verbatim>\<open>Grid::hasNeighbors\<close> is computed from the
  integer parts of \<open>p\<close> and of the radius, so it can end one cell before the cell of a
  point that is closer to \<open>p\<close> than the radius. Below, the grid over the bounds from
  \<open>(0, 0)\<close> to \<open>(17, 8)\<close> retains the point \<open>(16, 5)\<close>; the query at \<open>(59/4, 5)\<close> with
  radius \<open>3/2\<close> visits the cell of the abscissae 8 to 15 only and answers false, though
  the two points are \<open>5/4\<close> apart.
\<close>

theorem C3_missed_neighbor:
  "Grid_new (Area_of_Rectf \<lparr>rx1 = 0, ry1 = 0, rx2 = 17, ry2 = 8\<rparr>) 3 =
     Inr \<lparr>mGrid = [[], [], []], mNumCells = (3, 1), mOffset = (0, 0),
          mBounds = \<lparr>ax1 = 0, ay1 = 0, ax2 = 17, ay2 = 8\<rparr>, mK = 3, mCellSize = 8\<rparr>
   \<and> stored \<lparr>mGrid = [[], [], []], mNumCells = (3, 1), mOffset = (0, 0),
          mBounds = \<lparr>ax1 = 0, ay1 = 0, ax2 = 17, ay2 = 8\<rparr>, mK = 3, mCellSize = 8\<rparr> (16, 5)
   \<and> \<not> hasNeighbors
          (add \<lparr>mGrid = [[], [], []], mNumCells = (3, 1), mOffset = (0, 0),
                mBounds = \<lparr>ax1 = 0, ay1 = 0, ax2 = 17, ay2 = 8\<rparr>, mK = 3, mCellSize = 8\<rparr>
               (16, 5))
          (59 / 4, 5) (3 / 2)
   \<and> length2 (vsub (59 / 4, 5) (16, 5)) < (3 / 2) * (3 / 2)"
  using grid_seventeen
  by (simp add: stored_def geometry_defs grid_defs Let_def upt_conv_Cons)

subsection \<open>C1: minimum separation\<close>

text \<open>
  C1 fails on the code: a run returns generated points that are closer to an earlier
  point of the output than the separation. In both runs below the points of the
  initial set lie within the bounds and are further apart than the separation \<open>3/2\<close>,
  and \<open>k = 1\<close>.

  In the first run, over the bounds from \<open>(0, 0)\<close> to \<open>(17, 8)\<close>, the generated point
  \<open>(59/4, 5)\<close> is \<open>5/4\<close> from the initial point \<open>(16, 5)\<close>: the window of the
  neighbour query ends one cell before the cell of \<open>(16, 5)\<close> (see C3).

  In the second run, over the bounds from \<open>(0, 0)\<close> to \<open>(8, 8)\<close>, the two generated
  points \<open>(8, 4)\<close> and \<open>(8, 21/4)\<close> are \<open>5/4\<close> apart: \<open>(8, 4)\<close> lies on the border of the
  bounds, its cell index is outside the grid, and \<^verbatim>\<open>Grid::add\<close> does not retain it, so
  that no later query can find it.

  Distances are compared on their squares.
\<close>

theorem C1_close_generated_points:
  "Rectf_contains \<lparr>rx1 = 0, ry1 = 0, rx2 = 17, ry2 = 8\<rparr> (53 / 4, 5)
   \<and> Rectf_contains \<lparr>rx1 = 0, ry1 = 0, rx2 = 17, ry2 = 8\<rparr> (16, 5)
   \<and> (3 / 2) * (3 / 2) \<le> length2 (vsub (16, 5) (53 / 4, 5))
   \<and> poissonDiskDistribution_sep scripted [] (3 / 2) \<lparr>rx1 = 0, ry1 = 0, rx2 = 17, ry2 = 8\<rparr>
        [(53 / 4, 5), (16, 5)] 1 = Some (Inr [(53 / 4, 5), (16, 5), (59 / 4, 5)])
   \<and> length2 (vsub (59 / 4, 5) (16, 5)) < (3 / 2) * (3 / 2)
   \<and> Rectf_contains \<lparr>rx1 = 0, ry1 = 0, rx2 = 8, ry2 = 8\<rparr> (13 / 2, 4)
   \<and> Rectf_contains \<lparr>rx1 = 0, ry1 = 0, rx2 = 8, ry2 = 8\<rparr> (43 / 8, 21 / 4)
   \<and> (3 / 2) * (3 / 2) \<le> length2 (vsub (43 / 8, 21 / 4) (13 / 2, 4))
   \<and> poissonDiskDistribution_sep scripted [0, 0, 3 / 4, 0] (3 / 2)
        \<lparr>rx1 = 0, ry1 = 0, rx2 = 8, ry2 = 8\<rparr> [(13 / 2, 4), (43 / 8, 21 / 4)] 1 =
        Some (Inr [(13 / 2, 4), (43 / 8, 21 / 4), (8, 4), (8, 21 / 4)])
   \<and> length2 (vsub (8, 21 / 4) (8, 4)) < (3 / 2) * (3 / 2)"
  using run_seventeen run_border by (simp add: length2_def vsub_def Rectf_contains_def)

end
